theory Spec2Isabelle
  imports
    Complex_Main
    "HOL-Library.Sublist"
    "HOL-Library.Product_Lexorder"
    "HOL-Library.List_Lexorder"
    "HOL-Library.Char_ord"
begin

section \<open>Strings: \<open>str.lower\<close> and the \<open>in\<close> test\<close>

text \<open>
  \<open>query.lower()\<close> and \<open>col.lower()\<close> are Python's \<open>str.lower\<close>, which lowercases every
  cased character of Unicode. Every function below that lowercases takes \<open>str.lower\<close> as
  its first argument \<open>lower\<close>, and every property is proved for any such function. A
  string is its UTF-8 bytes, for which containment of one text in another is containment
  of the bytes.

  On a string of ASCII characters \<open>str.lower\<close> maps the letters \<open>A\<close> to \<open>Z\<close> to \<open>a\<close> to
  \<open>z\<close> and keeps every other character: \<open>lower_ascii\<close>, which the examples use, on
  ASCII queries and ASCII column names only.
\<close>

definition lower_ascii_char :: "char \<Rightarrow> char" where
  "lower_ascii_char c =
     (case map_of (zip ''ABCDEFGHIJKLMNOPQRSTUVWXYZ'' ''abcdefghijklmnopqrstuvwxyz'') c of
        Some d \<Rightarrow> d
      | None \<Rightarrow> c)"

definition lower_ascii :: "string \<Rightarrow> string" where
  "lower_ascii s = map lower_ascii_char s"

text \<open>
  Python's \<open>sub in s\<close> on strings: \<open>sub\<close> occurs in \<open>s\<close> as a contiguous piece. The
  empty string occurs in every string.
\<close>

fun substr :: "string \<Rightarrow> string \<Rightarrow> bool" where
  "substr sub [] = (sub = [])"
| "substr sub (c # cs) = (prefix sub (c # cs) \<or> substr sub cs)"

text \<open>\<open>any(word in query_lower for word in words)\<close>\<close>

definition any_word_in :: "string list \<Rightarrow> string \<Rightarrow> bool" where
  "any_word_in words query_lower = list_ex (\<lambda>word. substr word query_lower) words"

section \<open>The branch taken by \<open>query_data_with_ai\<close>\<close>

text \<open>
  \<open>query_data_with_ai\<close> is one \<open>if\<close>/\<open>elif\<close> chain over \<open>query_lower\<close>, with a second
  chain inside the statistical branch. \<open>resolve_intent\<close> is that chain with the name of
  the branch in place of its body; \<open>No_branch\<close> is the fall-through of the inner chain,
  which has no \<open>else\<close>.
\<close>

datatype central = Average | Median

datatype extreme = Maximum | Minimum

datatype intent =
    Summary
  | Central_tendency central
  | Extremum extreme
  | Correlation
  | Distribution
  | Comparison
  | Trend
  | Fallback
  | No_branch

definition resolve_intent :: "string \<Rightarrow> intent" where
  "resolve_intent query_lower =
     (if any_word_in [''summarize'', ''summary'', ''overview'', ''describe''] query_lower
      then Summary
      else if any_word_in [''average'', ''mean'', ''median'', ''maximum'', ''minimum'',
                           ''correlation'', ''correlate''] query_lower
      then (if substr ''average'' query_lower \<or> substr ''mean'' query_lower
            then Central_tendency Average
            else if substr ''median'' query_lower
            then Central_tendency Median
            else if substr ''maximum'' query_lower \<or> substr ''max'' query_lower
            then Extremum Maximum
            else if substr ''minimum'' query_lower \<or> substr ''min'' query_lower
            then Extremum Minimum
            else if substr ''correlation'' query_lower \<or> substr ''correlate'' query_lower
            then Correlation
            else No_branch)
      else if any_word_in [''distribution'', ''histogram'', ''spread'', ''range''] query_lower
      then Distribution
      else if any_word_in [''compare'', ''comparison'', ''difference'', ''versus'', ''vs'']
                query_lower
      then Comparison
      else if any_word_in [''trend'', ''time'', ''over time'', ''change'', ''evolution'']
                query_lower
      then Trend
      else Fallback)"

text \<open>
  The classifier as the specification words it: an ordered table of keyword sets, the
  first set with a keyword in the lowercased query decides, and no match is the
  fallback. The statistical entry carries the ordered table of its sub-dispatch.
\<close>

fun first_match :: "(string list \<times> 'a) list \<Rightarrow> string \<Rightarrow> 'a option" where
  "first_match [] q = None"
| "first_match ((keywords, result) # table) q =
     (if \<exists>k \<in> set keywords. sublist k q then Some result else first_match table q)"

definition statistical_table :: "(string list \<times> intent) list" where
  "statistical_table =
     [([''average'', ''mean''], Central_tendency Average),
      ([''median''], Central_tendency Median),
      ([''maximum'', ''max''], Extremum Maximum),
      ([''minimum'', ''min''], Extremum Minimum),
      ([''correlation'', ''correlate''], Correlation)]"

definition priority_table :: "(string list \<times> (string \<Rightarrow> intent option)) list" where
  "priority_table =
     [([''summarize'', ''summary'', ''overview'', ''describe''], \<lambda>q. Some Summary),
      ([''average'', ''mean'', ''median'', ''maximum'', ''minimum'', ''correlation'',
        ''correlate''], first_match statistical_table),
      ([''distribution'', ''histogram'', ''spread'', ''range''], \<lambda>q. Some Distribution),
      ([''compare'', ''comparison'', ''difference'', ''versus'', ''vs''], \<lambda>q. Some Comparison),
      ([''trend'', ''time'', ''over time'', ''change'', ''evolution''], \<lambda>q. Some Trend)]"

definition classify_intent_spec :: "(string \<Rightarrow> string) \<Rightarrow> string \<Rightarrow> intent option" where
  "classify_intent_spec lower query_text =
     (let q = lower query_text in
      case first_match priority_table q of
        None \<Rightarrow> Some Fallback
      | Some sub_dispatch \<Rightarrow> sub_dispatch q)"

section \<open>Data frames\<close>

text \<open>
  A data frame is its columns in order. A column has a name, the dtype pandas gave it,
  and one cell per row; \<open>NA\<close> is a missing entry (NaN, None or NaT). Numbers are
  real numbers: rounding and infinite entries of the data are not modelled. Column names
  are strings and, as in every frame the loaders build, unique; the index is the default
  one, so a row label is a row position.
\<close>

datatype cell = Num real | Str string | Ts int | Flag bool | NA

datatype dtype = Number | Bool | Datetime64 | Object | Other

record column =
  name :: string
  dtype :: dtype
  cells :: "cell list"

type_synonym dataframe = "column list"

text \<open>A computed float: finite, \<open>float('inf')\<close>, or NaN.\<close>

datatype number = Fin real | PosInf | NaN

datatype error = KeyError | ValueError | IndexError | TypeError | AttributeError

definition columns :: "dataframe \<Rightarrow> string list" where
  "columns df = map name df"

text \<open>\<open>df.shape[0]\<close>\<close>

definition shape0 :: "dataframe \<Rightarrow> nat" where
  "shape0 df = (case df of [] \<Rightarrow> 0 | c # _ \<Rightarrow> length (cells c))"

text \<open>\<open>df.select_dtypes(include=[np.number]).columns.tolist()\<close> and its two siblings.\<close>

definition numeric_cols :: "dataframe \<Rightarrow> string list" where
  "numeric_cols df = map name (filter (\<lambda>c. dtype c = Number) df)"

definition categorical_cols :: "dataframe \<Rightarrow> string list" where
  "categorical_cols df = map name (filter (\<lambda>c. dtype c \<noteq> Number) df)"

definition datetime_cols :: "dataframe \<Rightarrow> string list" where
  "datetime_cols df = map name (filter (\<lambda>c. dtype c = Datetime64) df)"

text \<open>
  \<open>df[col]\<close>, the cells of the column of that name. It is only ever applied to a name
  taken from the frame, so the \<open>KeyError\<close> of a missing name is no branch of the model.
\<close>

definition getitem :: "dataframe \<Rightarrow> string \<Rightarrow> cell list" where
  "getitem df col = (case find (\<lambda>c. name c = col) df of Some c \<Rightarrow> cells c | None \<Rightarrow> [])"

definition to_number :: "cell \<Rightarrow> number" where
  "to_number v = (case v of Num r \<Rightarrow> Fin r | _ \<Rightarrow> NaN)"

text \<open>The non-missing numbers of a series, in row order.\<close>

fun dropna :: "cell list \<Rightarrow> real list" where
  "dropna [] = []"
| "dropna (Num r # cs) = r # dropna cs"
| "dropna (_ # cs) = dropna cs"

text \<open>\<open>Series.mean()\<close> and \<open>Series.median()\<close>: missing entries are skipped, NaN if nothing is left.\<close>

definition mean :: "cell list \<Rightarrow> number" where
  "mean cs =
     (let xs = dropna cs in
      if xs = [] then NaN else Fin (sum_list xs / real (length xs)))"

definition median :: "cell list \<Rightarrow> number" where
  "median cs =
     (let xs = sort (dropna cs); n = length xs in
      if n = 0 then NaN
      else if odd n then Fin (xs ! (n div 2))
      else Fin ((xs ! (n div 2 - 1) + xs ! (n div 2)) / 2))"

text \<open>
  One pass over a series for its extreme non-missing entry: the running best is replaced
  only by a strictly better number, so the position kept is the first one of the
  extreme value (\<open>Series.idxmax\<close> and \<open>Series.idxmin\<close> return the first occurrence).
\<close>

fun scan_extreme ::
  "(real \<Rightarrow> real \<Rightarrow> bool) \<Rightarrow> cell list \<Rightarrow> nat \<Rightarrow> (nat \<times> real) option \<Rightarrow> (nat \<times> real) option"
where
  "scan_extreme better [] i best = best"
| "scan_extreme better (c # cs) i best =
     scan_extreme better cs (Suc i)
       (case c of
          Num r \<Rightarrow>
            (case best of
               None \<Rightarrow> Some (i, r)
             | Some (j, m) \<Rightarrow> if better r m then Some (i, r) else Some (j, m))
        | _ \<Rightarrow> best)"

text \<open>\<open>Series.max()\<close> and \<open>Series.min()\<close>: NaN when the series has no number.\<close>

definition series_max :: "cell list \<Rightarrow> number" where
  "series_max cs = (case scan_extreme (>) cs 0 None of None \<Rightarrow> NaN | Some (i, m) \<Rightarrow> Fin m)"

definition series_min :: "cell list \<Rightarrow> number" where
  "series_min cs = (case scan_extreme (<) cs 0 None of None \<Rightarrow> NaN | Some (i, m) \<Rightarrow> Fin m)"

text \<open>
  \<open>Series.idxmax()\<close> and \<open>Series.idxmin()\<close>: the label of the first row holding the
  extreme value. On a series without a number no label exists and the lookup raises.
\<close>

definition idxmax :: "cell list \<Rightarrow> error + nat" where
  "idxmax cs = (case scan_extreme (>) cs 0 None of None \<Rightarrow> Inl ValueError | Some (i, m) \<Rightarrow> Inr i)"

definition idxmin :: "cell list \<Rightarrow> error + nat" where
  "idxmin cs = (case scan_extreme (<) cs 0 None of None \<Rightarrow> Inl ValueError | Some (i, m) \<Rightarrow> Inr i)"

text \<open>\<open>df.loc[i]\<close>: the row at label \<open>i\<close>, one (column name, value) pair per column.\<close>

definition cell_at :: "cell list \<Rightarrow> nat \<Rightarrow> cell" where
  "cell_at cs i = (if i < length cs then cs ! i else NA)"

definition loc :: "dataframe \<Rightarrow> nat \<Rightarrow> (string \<times> cell) list" where
  "loc df i = map (\<lambda>c. (name c, cell_at (cells c) i)) df"

text \<open>\<open>Series.iloc[0]\<close> and \<open>Series.iloc[-1]\<close>: \<open>IndexError\<close> on an empty series.\<close>

definition iloc_first :: "cell list \<Rightarrow> error + cell" where
  "iloc_first cs = (case cs of [] \<Rightarrow> Inl IndexError | c # _ \<Rightarrow> Inr c)"

definition iloc_last :: "cell list \<Rightarrow> error + cell" where
  "iloc_last cs = (if cs = [] then Inl IndexError else Inr (last cs))"

text \<open>
  Float comparison and absolute value as Python evaluates them: every comparison with
  NaN is false.
\<close>

fun num_gt :: "number \<Rightarrow> number \<Rightarrow> bool" where
  "num_gt (Fin a) (Fin b) = (a > b)"
| "num_gt PosInf (Fin b) = True"
| "num_gt _ _ = False"

fun num_abs :: "number \<Rightarrow> number" where
  "num_abs (Fin a) = Fin \<bar>a\<bar>"
| "num_abs PosInf = PosInf"
| "num_abs NaN = NaN"

text \<open>\<open>a - b\<close> on cell values, which are finite or NaN.\<close>

fun num_sub :: "number \<Rightarrow> number \<Rightarrow> number" where
  "num_sub (Fin a) (Fin b) = Fin (a - b)"
| "num_sub _ _ = NaN"

text \<open>
  \<open>Series.corr\<close>, the Pearson coefficient over the rows where both series have a number:
  NaN when there is no such row or when one of the two has no variance.
\<close>

fun complete_pairs :: "cell list \<Rightarrow> cell list \<Rightarrow> (real \<times> real) list" where
  "complete_pairs (Num x # xs) (Num y # ys) = (x, y) # complete_pairs xs ys"
| "complete_pairs (_ # xs) (_ # ys) = complete_pairs xs ys"
| "complete_pairs _ _ = []"

definition pearson :: "cell list \<Rightarrow> cell list \<Rightarrow> number" where
  "pearson xs ys =
     (let ps = complete_pairs xs ys; n = real (length ps) in
      if ps = [] then NaN
      else
        let mx = sum_list (map fst ps) / n;
            my = sum_list (map snd ps) / n;
            covxy = sum_list (map (\<lambda>(x, y). (x - mx) * (y - my)) ps);
            ssqdx = sum_list (map (\<lambda>(x, y). (x - mx) * (x - mx)) ps);
            ssqdy = sum_list (map (\<lambda>(x, y). (y - my) * (y - my)) ps);
            divisor = sqrt (ssqdx * ssqdy)
        in if divisor \<noteq> 0 then Fin (covxy / divisor) else NaN)"

text \<open>\<open>df[numeric_cols].corr()\<close>, read at a pair of column names.\<close>

definition corr :: "dataframe \<Rightarrow> string \<Rightarrow> string \<Rightarrow> number" where
  "corr df col1 col2 = pearson (getitem df col1) (getitem df col2)"

text \<open>\<open>corr_matrix.loc[col1, col2]\<close>: a label that is not a column of the matrix raises.\<close>

definition corr_loc :: "string list \<Rightarrow> (string \<Rightarrow> string \<Rightarrow> number) \<Rightarrow> string \<Rightarrow> string \<Rightarrow> error + number" where
  "corr_loc labels corr_matrix col1 col2 =
     (if col1 \<in> set labels \<and> col2 \<in> set labels then Inr (corr_matrix col1 col2)
      else Inl KeyError)"

text \<open>
  \<open>df.sort_values(by=col)\<close>: the rows in ascending order of the key column, missing keys
  last, rows of equal key in their old order. Comparing a string with a number raises.
\<close>

definition sort_rank :: "cell \<Rightarrow> nat \<times> real \<times> string" where
  "sort_rank v =
     (case v of
        Num r \<Rightarrow> (0, r, [])
      | Ts t \<Rightarrow> (0, real_of_int t, [])
      | Flag b \<Rightarrow> (0, if b then 1 else 0, [])
      | Str s \<Rightarrow> (0, 0, s)
      | NA \<Rightarrow> (1, 0, []))"

definition is_str :: "cell \<Rightarrow> bool" where
  "is_str v = (case v of Str s \<Rightarrow> True | _ \<Rightarrow> False)"

definition mixed_keys :: "cell list \<Rightarrow> bool" where
  "mixed_keys ks = (list_ex is_str ks \<and> list_ex (\<lambda>v. \<not> is_str v \<and> v \<noteq> NA) ks)"

definition sort_values :: "dataframe \<Rightarrow> string \<Rightarrow> error + dataframe" where
  "sort_values df by_col =
     (let keys = getitem df by_col in
      if mixed_keys keys then Inl TypeError
      else
        let order = sort_key (\<lambda>i. sort_rank (keys ! i)) [0..<length keys]
        in Inr (map (\<lambda>c. c\<lparr>cells := map (cell_at (cells c)) order\<rparr>) df))"

section \<open>Answers\<close>

text \<open>
  The response is the text the f-strings build. A piece is literal text (\<open>T\<close>, also a
  column name put into the text), or a float under a format specification: \<open>F1\<close>,
  \<open>F2\<close> and \<open>F3\<close> are \<open>:.1f\<close>, \<open>:.2f\<close> and \<open>:.3f\<close>. \<open>RV\<close> is a value of a row as
  the loop over the row prints it: with two decimals if it is an \<open>int\<close> or a \<open>float\<close>,
  as it is otherwise.
\<close>

datatype frag = T string | F1 number | F2 number | F3 number | RV cell

type_synonym response = "frag list"

text \<open>
  A chart is the plotly call that builds it, without the frame it draws:
  \<open>Vline x line_dash line_color annotation_text annotation_position\<close> is \<open>fig.add_vline\<close>,
  \<open>Histogram x title vline\<close> is \<open>px.histogram\<close>, \<open>Imshow labels title\<close> is the heatmap of
  the correlation matrix over \<open>labels\<close>, \<open>Scatter x y trendline title\<close> is \<open>px.scatter\<close>,
  \<open>Line x y title\<close> is \<open>px.line\<close>.
\<close>

datatype vline = Vline number string string response string

datatype chart =
    Histogram string string "vline option"
  | Imshow "string list" string
  | Scatter string string string string
  | Line string string string

text \<open>
  What a call returns: \<open>Answer response visualization\<close> is the pair the function returns.
  The other constructors say that control has reached a body that only prints pandas
  aggregates and that the model does not follow: the summary (lines 36 to 59), the
  distribution report of a resolved column (lines 237 to 272), the comparison report of
  two resolved columns (lines 289 to 363), and the fallback (lines 429 to 484).
\<close>

datatype result =
    Answer response "chart option"
  | Summary_report
  | Distribution_report string
  | Comparison_report string string
  | Fallback_report

section \<open>Column resolution\<close>

text \<open>
  The loop that every single-column branch repeats:
  \<^verbatim>\<open>
    target_col = None
    for col in df.columns:
        if col.lower() in query_lower:
            target_col = col
            break
  \<close>
\<close>

fun find_target_col :: "(string \<Rightarrow> string) \<Rightarrow> string \<Rightarrow> string list \<Rightarrow> string option" where
  "find_target_col lower query_lower [] = None"
| "find_target_col lower query_lower (col # cols) =
     (if substr (lower col) query_lower then Some col
      else find_target_col lower query_lower cols)"

text \<open>The truth value of \<open>target_col\<close>: \<open>None\<close> and the empty string are false.\<close>

fun truthy :: "string option \<Rightarrow> bool" where
  "truthy None = False"
| "truthy (Some col) = (col \<noteq> [])"

text \<open>
  The loop of the comparison branch, which has no \<open>break\<close>:
  \<^verbatim>\<open>
    columns_to_compare = []
    for col in df.columns:
        if col.lower() in query_lower:
            columns_to_compare.append(col)
  \<close>
\<close>

fun columns_to_compare :: "(string \<Rightarrow> string) \<Rightarrow> string \<Rightarrow> string list \<Rightarrow> string list" where
  "columns_to_compare lower query_lower [] = []"
| "columns_to_compare lower query_lower (col # cols) =
     (if substr (lower col) query_lower then col # columns_to_compare lower query_lower cols
      else columns_to_compare lower query_lower cols)"

text \<open>
  The resolver as the specification words it: the names that match, in dataset order,
  up to \<open>required_count\<close> of them.
\<close>

definition resolve_spec :: "(string \<Rightarrow> string) \<Rightarrow> string \<Rightarrow> string list \<Rightarrow> nat \<Rightarrow> string list" where
  "resolve_spec lower query_text column_names required_count =
     take required_count
       (filter (\<lambda>col. sublist (lower col) (lower query_text)) column_names)"

section \<open>The statistical branch\<close>

definition mean_branch :: "(string \<Rightarrow> string) \<Rightarrow> string \<Rightarrow> dataframe \<Rightarrow> result" where
  "mean_branch lower query_lower df =
     (let target_col = find_target_col lower query_lower (columns df) in
      if truthy target_col \<and> the target_col \<in> set (numeric_cols df)
      then
        let col = the target_col;
            mean_val = mean (getitem df col);
            response = [T ''## Average Analysis\<newline>\<newline>'']
              @ [T ''The average of **'', T col, T ''** is **'', F2 mean_val,
                 T ''**.\<newline>\<newline>''];
            fig = Histogram col (''Distribution of '' @ col @ '' with Mean'')
                    (Some (Vline mean_val ''dash'' ''red'' [T ''Mean: '', F2 mean_val]
                             ''top right''))
        in Answer response (Some fig)
      else
        Answer [T ''I couldn't identify which numeric column you want to find the average for. Please specify a numeric column name.'']
          None)"

definition median_branch :: "(string \<Rightarrow> string) \<Rightarrow> string \<Rightarrow> dataframe \<Rightarrow> result" where
  "median_branch lower query_lower df =
     (let target_col = find_target_col lower query_lower (columns df) in
      if truthy target_col \<and> the target_col \<in> set (numeric_cols df)
      then
        let col = the target_col;
            median_val = median (getitem df col);
            response = [T ''## Median Analysis\<newline>\<newline>'']
              @ [T ''The median of **'', T col, T ''** is **'', F2 median_val,
                 T ''**.\<newline>\<newline>''];
            fig = Histogram col (''Distribution of '' @ col @ '' with Median'')
                    (Some (Vline median_val ''dash'' ''green'' [T ''Median: '', F2 median_val]
                             ''top right''))
        in Answer response (Some fig)
      else
        Answer [T ''I couldn't identify which numeric column you want to find the median for. Please specify a numeric column name.'']
          None)"

text \<open>
  \<^verbatim>\<open>
    for col, val in max_row.items():
        if isinstance(val, (int, float)):
            response += f"- **{col}**: {val:.2f}\n"
        else:
            response += f"- **{col}**: {val}\n"
  \<close>
\<close>

definition row_lines :: "(string \<times> cell) list \<Rightarrow> response" where
  "row_lines row =
     concat (map (\<lambda>(col, val). [T ''- **'', T col, T ''**: '', RV val, T ''\<newline>'']) row)"

definition maximum_report :: "string \<Rightarrow> number \<Rightarrow> (string \<times> cell) list \<Rightarrow> result" where
  "maximum_report col max_val max_row =
     (let response = [T ''## Maximum Analysis\<newline>\<newline>'']
            @ [T ''The maximum value of **'', T col, T ''** is **'', F2 max_val,
               T ''**.\<newline>\<newline>'']
            @ [T ''This occurs in a row with the following values:\<newline>\<newline>'']
            @ row_lines max_row;
          fig = Histogram col (''Distribution of '' @ col @ '' with Maximum Highlighted'')
                  (Some (Vline max_val ''dash'' ''red'' [T ''Max: '', F2 max_val] ''top right''))
      in Answer response (Some fig))"

definition maximum_branch :: "(string \<Rightarrow> string) \<Rightarrow> string \<Rightarrow> dataframe \<Rightarrow> error + result" where
  "maximum_branch lower query_lower df =
     (let target_col = find_target_col lower query_lower (columns df) in
      if truthy target_col \<and> the target_col \<in> set (numeric_cols df)
      then
        let col = the target_col;
            max_val = series_max (getitem df col)
        in (case idxmax (getitem df col) of
              Inl e \<Rightarrow> Inl e
            | Inr i \<Rightarrow> Inr (maximum_report col max_val (loc df i)))
      else
        Inr (Answer [T ''I couldn't identify which numeric column you want to find the maximum for. Please specify a numeric column name.'']
               None))"

definition minimum_report :: "string \<Rightarrow> number \<Rightarrow> (string \<times> cell) list \<Rightarrow> result" where
  "minimum_report col min_val min_row =
     (let response = [T ''## Minimum Analysis\<newline>\<newline>'']
            @ [T ''The minimum value of **'', T col, T ''** is **'', F2 min_val,
               T ''**.\<newline>\<newline>'']
            @ [T ''This occurs in a row with the following values:\<newline>\<newline>'']
            @ row_lines min_row;
          fig = Histogram col (''Distribution of '' @ col @ '' with Minimum Highlighted'')
                  (Some (Vline min_val ''dash'' ''blue'' [T ''Min: '', F2 min_val] ''top right''))
      in Answer response (Some fig))"

definition minimum_branch :: "(string \<Rightarrow> string) \<Rightarrow> string \<Rightarrow> dataframe \<Rightarrow> error + result" where
  "minimum_branch lower query_lower df =
     (let target_col = find_target_col lower query_lower (columns df) in
      if truthy target_col \<and> the target_col \<in> set (numeric_cols df)
      then
        let col = the target_col;
            min_val = series_min (getitem df col)
        in (case idxmin (getitem df col) of
              Inl e \<Rightarrow> Inl e
            | Inr i \<Rightarrow> Inr (minimum_report col min_val (loc df i)))
      else
        Inr (Answer [T ''I couldn't identify which numeric column you want to find the minimum for. Please specify a numeric column name.'']
               None))"

text \<open>
  \<^verbatim>\<open>
    highest_corr = 0
    col1_highest = ""
    col2_highest = ""
    for col1 in corr_matrix.columns:
        for col2 in corr_matrix.columns:
            if col1 != col2 and abs(corr_matrix.loc[col1, col2]) > highest_corr:
                highest_corr = abs(corr_matrix.loc[col1, col2])
                col1_highest = col1
                col2_highest = col2
  \<close>
  The state of the loop is the triple of the three variables.
\<close>

definition corr_step ::
  "(string \<Rightarrow> string \<Rightarrow> number) \<Rightarrow> string \<Rightarrow> string \<Rightarrow> number \<times> string \<times> string
     \<Rightarrow> number \<times> string \<times> string"
where
  "corr_step corr_matrix col1 col2 st =
     (case st of (highest_corr, col1_highest, col2_highest) \<Rightarrow>
        if col1 \<noteq> col2 \<and> num_gt (num_abs (corr_matrix col1 col2)) highest_corr
        then (num_abs (corr_matrix col1 col2), col1, col2)
        else (highest_corr, col1_highest, col2_highest))"

definition highest_correlation ::
  "string list \<Rightarrow> (string \<Rightarrow> string \<Rightarrow> number) \<Rightarrow> number \<times> string \<times> string"
where
  "highest_correlation labels corr_matrix =
     fold (\<lambda>col1. fold (\<lambda>col2. corr_step corr_matrix col1 col2) labels) labels
       (Fin 0, [], [])"

definition correlation_branch :: "dataframe \<Rightarrow> error + result" where
  "correlation_branch df =
     (if length (numeric_cols df) \<ge> 2
      then
        let corr_matrix = corr df;
            labels = numeric_cols df
        in (case highest_correlation labels corr_matrix of
              (highest_corr, col1_highest, col2_highest) \<Rightarrow>
                (case corr_loc labels corr_matrix col1_highest col2_highest of
                   Inl e \<Rightarrow> Inl e
                 | Inr coefficient \<Rightarrow>
                     let response = [T ''## Correlation Analysis\<newline>\<newline>'']
                           @ [T ''The strongest correlation is between **'', T col1_highest,
                              T ''** and **'', T col2_highest, T ''** '']
                           @ [T ''with a correlation coefficient of **'', F3 coefficient,
                              T ''**.\<newline>\<newline>''];
                         visualization = Some (Imshow labels
                                                 ''Correlation Matrix of Numeric Variables'');
                         visualization = Some (Scatter col1_highest col2_highest ''ols''
                                                 (''Scatter Plot of '' @ col1_highest @ '' vs ''
                                                    @ col2_highest))
                     in Inr (Answer response visualization)))
      else
        Inr (Answer [T ''The dataset doesn't have enough numeric columns to perform correlation analysis.'']
               None))"

section \<open>The distribution, comparison and trend branches\<close>

definition distribution_branch :: "(string \<Rightarrow> string) \<Rightarrow> string \<Rightarrow> dataframe \<Rightarrow> result" where
  "distribution_branch lower query_lower df =
     (let target_col = find_target_col lower query_lower (columns df) in
      if truthy target_col then Distribution_report (the target_col)
      else
        Answer [T ''I couldn't identify which column you want to analyze. Please specify a column name.'']
          None)"

definition comparison_branch :: "(string \<Rightarrow> string) \<Rightarrow> string \<Rightarrow> dataframe \<Rightarrow> result" where
  "comparison_branch lower query_lower df =
     (let to_compare = columns_to_compare lower query_lower (columns df) in
      if length to_compare \<ge> 2
      then
        let col1 = to_compare ! 0;
            col2 = to_compare ! 1
        in Comparison_report col1 col2
      else
        Answer [T ''I couldn't identify which columns you want to compare. Please specify both column names.'']
          None)"

text \<open>
  \<open>((last_val - first_val) / first_val) * 100\<close> on cell values, which are finite or
  NaN, for a first value that is not 0.
\<close>

fun percent_of :: "number \<Rightarrow> number \<Rightarrow> number" where
  "percent_of (Fin l) (Fin f) = Fin ((l - f) / f * 100)"
| "percent_of _ _ = NaN"

text \<open>
  \<open>pct_change = ((last_val - first_val) / first_val) * 100 if first_val != 0 else float('inf')\<close>;
  a NaN first value is different from 0.
\<close>

definition pct_change :: "number \<Rightarrow> number \<Rightarrow> number" where
  "pct_change first_val last_val =
     (if first_val \<noteq> Fin 0 then percent_of last_val first_val else PosInf)"

definition trend_report :: "string \<Rightarrow> string \<Rightarrow> number \<Rightarrow> number \<Rightarrow> result" where
  "trend_report target_col time_col first_val last_val =
     (let response = [T ''## Trend Analysis: '', T target_col, T '' over '', T time_col,
                      T ''\<newline>\<newline>'']
            @ [T ''Analyzing how **'', T target_col, T ''** changes over **'', T time_col,
               T ''**.\<newline>\<newline>''];
          pct = pct_change first_val last_val;
          response = response
            @ [T ''- Value at start: '', F2 first_val, T ''\<newline>'']
            @ [T ''- Value at end: '', F2 last_val, T ''\<newline>'']
            @ [T ''- Change: '', F2 (num_sub last_val first_val), T ''\<newline>'']
            @ [T ''- Percent change: '', F1 pct, T ''%\<newline>\<newline>''];
          fig = Line time_col target_col (''Trend of '' @ target_col @ '' over '' @ time_col)
      in Answer response (Some fig))"

text \<open>
  The time column of a trend: the first datetime column, else the first column whose
  lowercased name contains a date word.
  \<^verbatim>\<open>
    time_col = None
    for col in datetime_cols:
        time_col = col
        break
    if not time_col:
        for col in df.columns:
            if any(date_word in col.lower() for date_word in ["date", "time", "year", "month", "day"]):
                time_col = col
                break
  \<close>
\<close>

definition trend_time_col :: "(string \<Rightarrow> string) \<Rightarrow> dataframe \<Rightarrow> string option" where
  "trend_time_col lower df =
     (let time_col = (case datetime_cols df of [] \<Rightarrow> None | col # _ \<Rightarrow> Some col) in
      if \<not> truthy time_col
      then (case find (\<lambda>col. any_word_in [''date'', ''time'', ''year'', ''month'', ''day'']
                               (lower col)) (columns df) of
              Some col \<Rightarrow> Some col
            | None \<Rightarrow> time_col)
      else time_col)"

text \<open>
  The value column of a trend: the first numeric column named in the query, else the
  first numeric column.
  \<^verbatim>\<open>
    target_col = None
    for col in numeric_cols:
        if col.lower() in query_lower:
            target_col = col
            break
    if not target_col and numeric_cols:
        target_col = numeric_cols[0]
  \<close>
\<close>

definition trend_target_col :: "(string \<Rightarrow> string) \<Rightarrow> string \<Rightarrow> dataframe \<Rightarrow> string option" where
  "trend_target_col lower query_lower df =
     (let target_col = find_target_col lower query_lower (numeric_cols df) in
      if \<not> truthy target_col \<and> numeric_cols df \<noteq> []
      then Some (hd (numeric_cols df))
      else target_col)"

definition trend_branch :: "(string \<Rightarrow> string) \<Rightarrow> string \<Rightarrow> dataframe \<Rightarrow> error + result" where
  "trend_branch lower query_lower df =
     (let time_col = trend_time_col lower df in
      if truthy time_col
      then
        let target_col = trend_target_col lower query_lower df in
        if truthy target_col
        then
          (case sort_values df (the time_col) of
             Inl e \<Rightarrow> Inl e
           | Inr df_sorted \<Rightarrow>
               (case iloc_first (getitem df_sorted (the target_col)) of
                  Inl e \<Rightarrow> Inl e
                | Inr first_val \<Rightarrow>
                    (case iloc_last (getitem df_sorted (the target_col)) of
                       Inl e \<Rightarrow> Inl e
                     | Inr last_val \<Rightarrow>
                         Inr (trend_report (the target_col) (the time_col)
                                (to_number first_val) (to_number last_val)))))
        else
          Inr (Answer [T ''I couldn't identify which value you want to track over time. Please specify a numeric column name.'']
                 None)
      else
        Inr (Answer [T ''I couldn't find a suitable time or date column in the data to analyze trends.'']
               None))"

section \<open>\<open>query_data_with_ai\<close>\<close>

text \<open>
  The function: the query is lowercased, the chain picks the branch, the branch builds
  the pair \<open>(response, visualization)\<close>, both of which start as the empty text and
  \<open>None\<close>. The data profile computed in the first line is not used.
\<close>

definition query_data_with_ai :: "(string \<Rightarrow> string) \<Rightarrow> string \<Rightarrow> dataframe \<Rightarrow> error + result" where
  "query_data_with_ai lower query df =
     (let query_lower = lower query in
      case resolve_intent query_lower of
        Summary \<Rightarrow> Inr Summary_report
      | Central_tendency Average \<Rightarrow> Inr (mean_branch lower query_lower df)
      | Central_tendency Median \<Rightarrow> Inr (median_branch lower query_lower df)
      | Extremum Maximum \<Rightarrow> maximum_branch lower query_lower df
      | Extremum Minimum \<Rightarrow> minimum_branch lower query_lower df
      | Correlation \<Rightarrow> correlation_branch df
      | No_branch \<Rightarrow> Inr (Answer [] None)
      | Distribution \<Rightarrow> Inr (distribution_branch lower query_lower df)
      | Comparison \<Rightarrow> Inr (comparison_branch lower query_lower df)
      | Trend \<Rightarrow> trend_branch lower query_lower df
      | Fallback \<Rightarrow> Inr Fallback_report)"

section \<open>\<open>detect_data_types\<close>\<close>

text \<open>
  The dictionary that \<open>detect_data_types\<close> returns has the five keys below, each with a
  list of column names; it is a function from the key to its list.
\<close>

datatype bucket = Numeric | Categorical | Datetime | Text | Boolean

type_synonym column_types = "bucket \<Rightarrow> string list"

text \<open>\<open>Series.nunique()\<close>: the number of distinct non-missing values.\<close>

definition nunique :: "cell list \<Rightarrow> nat" where
  "nunique cs = length (remdups (filter (\<lambda>v. v \<noteq> NA) cs))"

text \<open>
  \<open>set(df[col].dropna().unique()).issubset({0, 1, True, False})\<close>; in Python \<open>True\<close> is
  equal to 1 and \<open>False\<close> to 0.
\<close>

definition zero_one_values :: "cell list \<Rightarrow> bool" where
  "zero_one_values cs =
     list_all (\<lambda>v. v \<in> {Num 0, Num 1, Flag True, Flag False}) (filter (\<lambda>v. v \<noteq> NA) cs)"

text \<open>
  \<open>df[col].str\<close>: pandas builds the string accessor from the kinds of the non-missing
  values of the column. It accepts a column of strings, a column of values of mixed
  kinds and a column without values; on a column whose values are all numbers, all
  booleans or all timestamps it raises \<open>AttributeError\<close>. The kind of the first value
  decides which of these tests is made.
\<close>

fun same_kind :: "cell \<Rightarrow> cell \<Rightarrow> bool" where
  "same_kind (Num x) (Num y) = True"
| "same_kind (Str x) (Str y) = True"
| "same_kind (Ts x) (Ts y) = True"
| "same_kind (Flag x) (Flag y) = True"
| "same_kind _ _ = False"

definition str_accessor_raises :: "cell list \<Rightarrow> bool" where
  "str_accessor_raises cs =
     (case filter (\<lambda>v. v \<noteq> NA) cs of
        [] \<Rightarrow> False
      | v # vs \<Rightarrow> \<not> is_str v \<and> list_all (same_kind v) vs)"

text \<open>\<open>.str.len()\<close>: the length of every string, NaN for every other entry.\<close>

fun str_lens :: "cell list \<Rightarrow> cell list" where
  "str_lens [] = []"
| "str_lens (Str s # cs) = Num (real (length s)) # str_lens cs"
| "str_lens (_ # cs) = NA # str_lens cs"

text \<open>\<open>df[col].str.len().mean()\<close>\<close>

definition str_len_mean :: "cell list \<Rightarrow> error + number" where
  "str_len_mean cs =
     (if str_accessor_raises cs then Inl AttributeError else Inr (mean (str_lens cs)))"

text \<open>
  One pass of the loop body: the key under which the column is filed. In the test of an
  object column \<open>or\<close> evaluates its right operand, the one with \<open>.str\<close>, only when the
  left one is false.
\<close>

definition bucket_of :: "dataframe \<Rightarrow> column \<Rightarrow> error + bucket" where
  "bucket_of df col =
     (if dtype col = Datetime64 then Inr Datetime
      else if dtype col = Number \<or> dtype col = Bool
      then (if nunique (cells col) \<le> 2 \<and> zero_one_values (cells col) then Inr Boolean
            else Inr Numeric)
      else if dtype col = Object
      then (if real (nunique (cells col)) > real (shape0 df) * 0.5 then Inr Text
            else (case str_len_mean (cells col) of
                    Inl e \<Rightarrow> Inl e
                  | Inr len_mean \<Rightarrow> if num_gt len_mean (Fin 50) then Inr Text else Inr Categorical))
      else Inr Categorical)"

text \<open>
  The loop over \<open>df.columns\<close>, which appends the name of each column to the list of its
  key and stops at the first exception.
\<close>

fun file_columns :: "dataframe \<Rightarrow> column list \<Rightarrow> column_types \<Rightarrow> error + column_types" where
  "file_columns df [] column_types = Inr column_types"
| "file_columns df (col # cols) column_types =
     (case bucket_of df col of
        Inl e \<Rightarrow> Inl e
      | Inr key \<Rightarrow> file_columns df cols (column_types (key := column_types key @ [name col])))"

definition detect_data_types :: "dataframe \<Rightarrow> error + column_types" where
  "detect_data_types df = file_columns df df (\<lambda>key. [])"

section \<open>The guidance messages and the example frames\<close>

text \<open>
  The message of each branch that needs a column named in the query, by intent, as the
  code has it in the \<open>else\<close> of that branch.
\<close>

fun couldnt_identify :: "intent \<Rightarrow> response" where
  "couldnt_identify (Central_tendency Average) =
     [T ''I couldn't identify which numeric column you want to find the average for. Please specify a numeric column name.'']"
| "couldnt_identify (Central_tendency Median) =
     [T ''I couldn't identify which numeric column you want to find the median for. Please specify a numeric column name.'']"
| "couldnt_identify (Extremum Maximum) =
     [T ''I couldn't identify which numeric column you want to find the maximum for. Please specify a numeric column name.'']"
| "couldnt_identify (Extremum Minimum) =
     [T ''I couldn't identify which numeric column you want to find the minimum for. Please specify a numeric column name.'']"
| "couldnt_identify Distribution =
     [T ''I couldn't identify which column you want to analyze. Please specify a column name.'']"
| "couldnt_identify Comparison =
     [T ''I couldn't identify which columns you want to compare. Please specify both column names.'']"
| "couldnt_identify _ = []"

text \<open>
  The intents whose branch resolves its column from the query alone. The trend branch
  falls back to the first numeric column, the others use no column of the query.
\<close>

definition needs_column :: "intent \<Rightarrow> bool" where
  "needs_column i =
     (i \<in> {Central_tendency Average, Central_tendency Median, Extremum Maximum,
            Extremum Minimum, Distribution, Comparison})"

definition needs_numeric_column :: "intent \<Rightarrow> bool" where
  "needs_numeric_column i =
     (i \<in> {Central_tendency Average, Central_tendency Median, Extremum Maximum,
            Extremum Minimum})"

definition df_price :: dataframe where
  "df_price =
     [\<lparr>name = ''price'', dtype = Number, cells = [Num 10, Num 20, Num 30, Num 40]\<rparr>,
      \<lparr>name = ''region'', dtype = Object, cells = [Str ''n'', Str ''s'', Str ''n'', Str ''s'']\<rparr>]"

definition df_region :: dataframe where
  "df_region =
     [\<lparr>name = ''region'', dtype = Object, cells = [Str ''n'', Str ''s'']\<rparr>,
      \<lparr>name = ''region_sales'', dtype = Number, cells = [Num 10, Num 20]\<rparr>]"

definition df_prices :: dataframe where
  "df_prices =
     [\<lparr>name = ''price'', dtype = Number, cells = [Num 10, Num 20]\<rparr>,
      \<lparr>name = ''price_usd'', dtype = Number, cells = [Num 11, Num 22]\<rparr>]"

definition df_constant :: dataframe where
  "df_constant =
     [\<lparr>name = ''a'', dtype = Number, cells = [Num 1, Num 1, Num 1]\<rparr>,
      \<lparr>name = ''b'', dtype = Number, cells = [Num 1, Num 2, Num 3]\<rparr>]"

definition df_perfect :: dataframe where
  "df_perfect =
     [\<lparr>name = ''a'', dtype = Number, cells = [Num 1, Num 2, Num 3]\<rparr>,
      \<lparr>name = ''b'', dtype = Number, cells = [Num 1, Num 2, Num 3]\<rparr>]"



text \<open>
  A correlation matrix over three columns in which the pairs \<open>a\<close>, \<open>c\<close> and \<open>b\<close>, \<open>c\<close>
  share the largest absolute coefficient.
\<close>

definition corr_three :: "string \<Rightarrow> string \<Rightarrow> number" where
  "corr_three col1 col2 =
     (if col1 = col2 then Fin 1
      else if {col1, col2} = {''a'', ''b''} then Fin (1 / 2)
      else if {col1, col2} = {''a'', ''c''} then Fin (9 / 10)
      else if {col1, col2} = {''b'', ''c''} then Fin (- (9 / 10))
      else NaN)"

definition df_scores :: dataframe where
  "df_scores =
     [\<lparr>name = ''label'', dtype = Object,
        cells = [Str ''p'', Str ''q'', Str ''r'', Str ''s'', Str ''t'']\<rparr>,
      \<lparr>name = ''score'', dtype = Number, cells = [Num 3, Num 1, Num 4, Num 1, Num 5]\<rparr>]"

text \<open>
  Two frames whose numeric column \<open>score\<close> has no number: one with two rows and both
  entries missing, one without rows.
\<close>

definition df_missing :: dataframe where
  "df_missing =
     [\<lparr>name = ''label'', dtype = Object, cells = [Str ''p'', Str ''q'']\<rparr>,
      \<lparr>name = ''score'', dtype = Number, cells = [NA, NA]\<rparr>]"

definition df_norows :: dataframe where
  "df_norows =
     [\<lparr>name = ''label'', dtype = Object, cells = []\<rparr>,
      \<lparr>name = ''score'', dtype = Number, cells = []\<rparr>]"

text \<open>The five keys of the dictionary.\<close>

definition all_buckets :: "bucket list" where
  "all_buckets = [Numeric, Categorical, Datetime, Text, Boolean]"

definition df_mixed :: dataframe where
  "df_mixed =
     [\<lparr>name = ''when'', dtype = Datetime64, cells = [Ts 1, Ts 2, Ts 3, Ts 4]\<rparr>,
      \<lparr>name = ''price'', dtype = Number, cells = [Num 10, Num 20, Num 30, Num 40]\<rparr>,
      \<lparr>name = ''flag'', dtype = Number, cells = [Num 0, Num 1, NA, Num 1]\<rparr>,
      \<lparr>name = ''region'', dtype = Object, cells = [Str ''n'', Str ''s'', Str ''n'', Str ''s'']\<rparr>,
      \<lparr>name = ''note'', dtype = Object, cells = [Str ''a'', Str ''b'', Str ''c'', Str ''d'']\<rparr>]"

text \<open>
  A frame as \<open>read_csv\<close> builds it from a column of \<open>True\<close>/\<open>False\<close> with one empty
  field: the column has the object dtype and holds booleans and one NaN.
\<close>

definition df_flags :: dataframe where
  "df_flags =
     [\<lparr>name = ''id'', dtype = Number, cells = [Num 1, Num 2, Num 3, Num 4]\<rparr>,
      \<lparr>name = ''active'', dtype = Object,
        cells = [Flag True, Flag False, NA, Flag True]\<rparr>]"

definition df_empty :: dataframe where
  "df_empty =
     [\<lparr>name = ''price'', dtype = Number, cells = []\<rparr>,
      \<lparr>name = ''note'', dtype = Object, cells = []\<rparr>]"

section \<open>Intent classification\<close>

lemma substr_sublist: "substr sub s = sublist sub s"
  by (induction s) (auto simp: sublist_Cons_right)

lemma any_word_in_iff: "any_word_in ws q = (\<exists>k \<in> set ws. sublist k q)"
  by (simp add: any_word_in_def list_ex_iff substr_sublist)

lemma resolve_intent_spec: "classify_intent_spec lower query = Some (resolve_intent (lower query))"
  by (simp add: classify_intent_spec_def resolve_intent_def priority_table_def
      statistical_table_def any_word_in_iff substr_sublist Let_def)

lemma statistical_branch_fires:
  assumes "any_word_in [''average'', ''mean'', ''median'', ''maximum'', ''minimum'',
                        ''correlation'', ''correlate''] q"
  shows "substr ''average'' q \<or> substr ''mean'' q \<or> substr ''median'' q
         \<or> substr ''maximum'' q \<or> substr ''minimum'' q
         \<or> substr ''correlation'' q \<or> substr ''correlate'' q"
  using assms by (auto simp: any_word_in_def)

lemma resolve_intent_total: "resolve_intent q \<noteq> No_branch"
  using statistical_branch_fires [of q]
  by (auto simp: resolve_intent_def)

text \<open>
  C1. Intent classification is total and deterministic. For every query exactly one
  intent is selected, by testing the keyword sets against the lowercased query in the
  fixed order summary, statistical, distribution, comparison, trend, fallback, the first
  match winning; inside the statistical branch the tests run in the order average/mean,
  median, maximum/max, minimum/min, correlation/correlate, and one of them always fires.
  The branch the code takes is the one the ordered table of the specification selects
  (a function of the lowercased query text alone), and
  \<open>show me the mean and correlation\<close> is classified as the mean.
\<close>

theorem C1_intent_classification:
  "classify_intent_spec lower query = Some (resolve_intent (lower query))
   \<and> resolve_intent (lower query) \<noteq> No_branch
   \<and> resolve_intent (lower_ascii ''show me the mean and correlation'') = Central_tendency Average"
proof -
  have "lower_ascii ''show me the mean and correlation'' = ''show me the mean and correlation''"
    by (simp add: lower_ascii_def lower_ascii_char_def)
  then have "resolve_intent (lower_ascii ''show me the mean and correlation'')
               = Central_tendency Average"
    by (simp add: resolve_intent_def any_word_in_def)
  then show ?thesis
    using resolve_intent_spec [of lower query] resolve_intent_total [of "lower query"] by simp
qed

theorem C1_intent_classification_witness:
  "classify_intent_spec lower_ascii ''What is the MAX of the minimum price?'' = Some (Extremum Maximum)"
proof -
  have "lower_ascii ''What is the MAX of the minimum price?''
          = ''what is the max of the minimum price?''"
    by (simp add: lower_ascii_def lower_ascii_char_def)
  then have "resolve_intent (lower_ascii ''What is the MAX of the minimum price?'')
               = Extremum Maximum"
    by (simp add: resolve_intent_def any_word_in_def)
  then show ?thesis
    using C1_intent_classification
      [where lower = lower_ascii and query = "''What is the MAX of the minimum price?''"]
    by simp
qed

section \<open>Column resolution\<close>

lemma find_target_col_find:
  "find_target_col lower q cols = find (\<lambda>col. sublist (lower col) q) cols"
  by (induction cols) (simp_all add: substr_sublist)

lemma columns_to_compare_filter:
  "columns_to_compare lower q cols = filter (\<lambda>col. sublist (lower col) q) cols"
  by (induction cols) (simp_all add: substr_sublist)

lemma find_target_col_None:
  "\<forall>col \<in> set cols. \<not> sublist (lower col) q \<Longrightarrow> find_target_col lower q cols = None"
  by (simp add: find_target_col_find find_None_iff)

lemma columns_to_compare_Nil:
  "\<forall>col \<in> set cols. \<not> sublist (lower col) q \<Longrightarrow> columns_to_compare lower q cols = []"
  by (simp add: columns_to_compare_filter)

lemma find_filter_take1:
  "find P xs = (case take 1 (filter P xs) of [] \<Rightarrow> None | x # _ \<Rightarrow> Some x)"
  by (induction xs) simp_all

lemma find_Some_split:
  "find P xs = Some x \<longleftrightarrow> (\<exists>pre post. xs = pre @ x # post \<and> P x \<and> (\<forall>y \<in> set pre. \<not> P y))"
proof (induction xs)
  case Nil
  then show ?case by simp
next
  case (Cons a xs)
  show ?case
  proof (cases "P a")
    case True
    have "(\<exists>pre post. a # xs = pre @ x # post \<and> P x \<and> (\<forall>y \<in> set pre. \<not> P y)) \<longleftrightarrow> a = x"
    proof
      assume "\<exists>pre post. a # xs = pre @ x # post \<and> P x \<and> (\<forall>y \<in> set pre. \<not> P y)"
      then obtain pre post where e: "a # xs = pre @ x # post" and n: "\<forall>y \<in> set pre. \<not> P y"
        by blast
      show "a = x"
      proof (cases pre)
        case Nil
        with e show ?thesis by simp
      next
        case (Cons b pre')
        with e have "b = a" by simp
        with Cons n True show ?thesis by simp
      qed
    next
      assume "a = x"
      with True have "a # xs = [] @ x # xs \<and> P x \<and> (\<forall>y \<in> set []. \<not> P y)" by simp
      then show "\<exists>pre post. a # xs = pre @ x # post \<and> P x \<and> (\<forall>y \<in> set pre. \<not> P y)"
        by blast
    qed
    with True show ?thesis by simp
  next
    case False
    have "(\<exists>pre post. a # xs = pre @ x # post \<and> P x \<and> (\<forall>y \<in> set pre. \<not> P y))
          \<longleftrightarrow> (\<exists>pre post. xs = pre @ x # post \<and> P x \<and> (\<forall>y \<in> set pre. \<not> P y))"
    proof
      assume "\<exists>pre post. a # xs = pre @ x # post \<and> P x \<and> (\<forall>y \<in> set pre. \<not> P y)"
      then obtain pre post where e: "a # xs = pre @ x # post" and p: "P x"
        and n: "\<forall>y \<in> set pre. \<not> P y"
        by blast
      from e p False obtain pre' where pre: "pre = a # pre'"
        by (cases pre) auto
      with e n have "xs = pre' @ x # post \<and> P x \<and> (\<forall>y \<in> set pre'. \<not> P y)"
        using p by simp
      then show "\<exists>pre post. xs = pre @ x # post \<and> P x \<and> (\<forall>y \<in> set pre. \<not> P y)"
        by blast
    next
      assume "\<exists>pre post. xs = pre @ x # post \<and> P x \<and> (\<forall>y \<in> set pre. \<not> P y)"
      then obtain pre post where "xs = pre @ x # post" "P x" "\<forall>y \<in> set pre. \<not> P y"
        by blast
      with False have "a # xs = (a # pre) @ x # post \<and> P x \<and> (\<forall>y \<in> set (a # pre). \<not> P y)"
        by simp
      then show "\<exists>pre post. a # xs = pre @ x # post \<and> P x \<and> (\<forall>y \<in> set pre. \<not> P y)"
        by blast
    qed
    with False Cons.IH show ?thesis by simp
  qed
qed

lemma lower_price: "lower_ascii ''price'' = ''price''"
  by (simp add: lower_ascii_def lower_ascii_char_def)

lemma lower_price_usd: "lower_ascii ''price_usd'' = ''price_usd''"
  by (simp add: lower_ascii_def lower_ascii_char_def)

lemma lower_region: "lower_ascii ''region'' = ''region''"
  by (simp add: lower_ascii_def lower_ascii_char_def)

text \<open>
  C5. Column resolution walks the column names in dataset order and selects a column
  exactly when its lowercased name occurs in the lowercased query. A single-column
  branch takes the first such column: the result is \<open>col\<close> exactly when \<open>col\<close> matches and no
  column before it does, whatever follows, so of two matching names of which one
  contains the other the earlier one is taken. The comparison branch collects all the
  matches in dataset order and uses the first two as \<open>col1\<close> and \<open>col2\<close>. Both agree with
  the resolver of the specification for one and for two required columns.
\<close>

theorem C5_column_resolution:
  "find_target_col lower (lower query) cols
     = (case resolve_spec lower query cols 1 of [] \<Rightarrow> None | col # _ \<Rightarrow> Some col)
   \<and> (find_target_col lower (lower query) cols = Some col \<longleftrightarrow>
        (\<exists>pre post. cols = pre @ col # post \<and> sublist (lower col) (lower query)
           \<and> (\<forall>c \<in> set pre. \<not> sublist (lower c) (lower query))))
   \<and> columns_to_compare lower (lower query) cols
        = filter (\<lambda>c. sublist (lower c) (lower query)) cols
   \<and> (length (resolve_spec lower query (columns df) 2) = 2 \<longrightarrow>
        comparison_branch lower (lower query) df
          = Comparison_report (resolve_spec lower query (columns df) 2 ! 0)
              (resolve_spec lower query (columns df) 2 ! 1))"
proof (intro conjI impI)
  show "find_target_col lower (lower query) cols
          = (case resolve_spec lower query cols 1 of [] \<Rightarrow> None | col # _ \<Rightarrow> Some col)"
    by (simp only: find_target_col_find resolve_spec_def find_filter_take1)
  show "find_target_col lower (lower query) cols = Some col \<longleftrightarrow>
        (\<exists>pre post. cols = pre @ col # post \<and> sublist (lower col) (lower query)
           \<and> (\<forall>c \<in> set pre. \<not> sublist (lower c) (lower query)))"
    by (simp only: find_target_col_find find_Some_split)
  show "columns_to_compare lower (lower query) cols
          = filter (\<lambda>c. sublist (lower c) (lower query)) cols"
    by (rule columns_to_compare_filter)
  assume "length (resolve_spec lower query (columns df) 2) = 2"
  then have "2 \<le> length (columns_to_compare lower (lower query) (columns df))"
    by (simp add: resolve_spec_def columns_to_compare_filter)
  then show "comparison_branch lower (lower query) df
          = Comparison_report (resolve_spec lower query (columns df) 2 ! 0)
              (resolve_spec lower query (columns df) 2 ! 1)"
    by (simp add: comparison_branch_def resolve_spec_def columns_to_compare_filter Let_def)
qed

theorem C5_column_resolution_witness:
  "find_target_col lower_ascii (lower_ascii ''Average PRICE_USD'') [''price'', ''price_usd''] = Some ''price''
   \<and> find_target_col lower_ascii (lower_ascii ''Average PRICE_USD'') [''price_usd'', ''price''] = Some ''price_usd''
   \<and> comparison_branch lower_ascii (lower_ascii ''compare price_usd with price'') df_prices
       = Comparison_report ''price'' ''price_usd''"
proof -
  have q1: "lower_ascii ''Average PRICE_USD'' = ''average price_usd''"
    by (simp add: lower_ascii_def lower_ascii_char_def)
  have q2: "lower_ascii ''compare price_usd with price'' = ''compare price_usd with price''"
    by (simp add: lower_ascii_def lower_ascii_char_def)
  have r1: "resolve_spec lower_ascii ''Average PRICE_USD'' [''price'', ''price_usd''] 1 = [''price'']"
    by (simp add: resolve_spec_def q1 lower_price lower_price_usd flip: substr_sublist)
  have r2: "resolve_spec lower_ascii ''Average PRICE_USD'' [''price_usd'', ''price''] 1 = [''price_usd'']"
    by (simp add: resolve_spec_def q1 lower_price lower_price_usd flip: substr_sublist)
  have r3: "resolve_spec lower_ascii ''compare price_usd with price'' (columns df_prices) 2
              = [''price'', ''price_usd'']"
    by (simp add: resolve_spec_def columns_def df_prices_def q2 lower_price lower_price_usd
        flip: substr_sublist)
  have a: "find_target_col lower_ascii (lower_ascii ''Average PRICE_USD'') [''price'', ''price_usd''] = Some ''price''"
    using C5_column_resolution [where lower = lower_ascii and query = "''Average PRICE_USD''"
          and cols = "[''price'', ''price_usd'']",
        THEN conjunct1]
    by (simp only: r1 list.case)
  have b: "find_target_col lower_ascii (lower_ascii ''Average PRICE_USD'') [''price_usd'', ''price'']
             = Some ''price_usd''"
    using C5_column_resolution [where lower = lower_ascii and query = "''Average PRICE_USD''"
          and cols = "[''price_usd'', ''price'']",
        THEN conjunct1]
    by (simp only: r2 list.case)
  have c: "comparison_branch lower_ascii (lower_ascii ''compare price_usd with price'') df_prices
       = Comparison_report ''price'' ''price_usd''"
    using C5_column_resolution [where lower = lower_ascii
          and query = "''compare price_usd with price''" and df = df_prices,
        THEN conjunct2, THEN conjunct2, THEN conjunct2]
    by (simp add: r3)
  show ?thesis using a b c by simp
qed

section \<open>Unresolved columns\<close>

text \<open>
  C7. When the query is classified into an intent whose branch needs a column named in
  the query (mean, median, maximum, minimum, distribution, comparison) and no column's
  lowercased name occurs in the lowercased query, the call returns the fixed guidance
  message of that branch and no chart.
\<close>

theorem C7_unresolved_column:
  assumes "needs_column (resolve_intent (lower query))"
    and "\<forall>col \<in> set (columns df). \<not> sublist (lower col) (lower query)"
  shows "query_data_with_ai lower query df
           = Inr (Answer (couldnt_identify (resolve_intent (lower query))) None)"
proof -
  have t: "find_target_col lower (lower query) (columns df) = None"
    using assms(2) by (rule find_target_col_None)
  have c: "columns_to_compare lower (lower query) (columns df) = []"
    using assms(2) by (rule columns_to_compare_Nil)
  from assms(1) consider
      "resolve_intent (lower query) = Central_tendency Average"
    | "resolve_intent (lower query) = Central_tendency Median"
    | "resolve_intent (lower query) = Extremum Maximum"
    | "resolve_intent (lower query) = Extremum Minimum"
    | "resolve_intent (lower query) = Distribution"
    | "resolve_intent (lower query) = Comparison"
    by (auto simp: needs_column_def)
  then show ?thesis
  proof cases
    case 1 then show ?thesis by (simp add: query_data_with_ai_def mean_branch_def t)
  next
    case 2 then show ?thesis by (simp add: query_data_with_ai_def median_branch_def t)
  next
    case 3 then show ?thesis by (simp add: query_data_with_ai_def maximum_branch_def t)
  next
    case 4 then show ?thesis by (simp add: query_data_with_ai_def minimum_branch_def t)
  next
    case 5 then show ?thesis by (simp add: query_data_with_ai_def distribution_branch_def t)
  next
    case 6 then show ?thesis by (simp add: query_data_with_ai_def comparison_branch_def c)
  qed
qed

theorem C7_unresolved_column_witness:
  "query_data_with_ai lower_ascii ''what is the average of sales?'' df_price
     = Inr (Answer [T ''I couldn't identify which numeric column you want to find the average for. Please specify a numeric column name.''] None)"
proof -
  have q: "lower_ascii ''what is the average of sales?'' = ''what is the average of sales?''"
    by (simp add: lower_ascii_def lower_ascii_char_def)
  have i: "resolve_intent (lower_ascii ''what is the average of sales?'') = Central_tendency Average"
    by (simp add: q resolve_intent_def any_word_in_def)
  have n: "needs_column (resolve_intent (lower_ascii ''what is the average of sales?''))"
    by (simp add: i needs_column_def)
  have m: "\<forall>col \<in> set (columns df_price).
             \<not> sublist (lower_ascii col) (lower_ascii ''what is the average of sales?'')"
    by (simp add: columns_def df_price_def q lower_price lower_region flip: substr_sublist)
  show ?thesis
    using C7_unresolved_column [where lower = lower_ascii, OF n m] by (simp add: i)
qed

text \<open>
  C10. For a mean, median, maximum or minimum query, when the first column whose
  lowercased name occurs in the query is not a numeric column, the call returns the
  same fixed message and no chart: the columns after the first match are not looked
  at, and the result is the one of a frame in which no column is named at all.
\<close>

theorem C10_non_numeric_match:
  assumes "needs_numeric_column (resolve_intent (lower query))"
    and "find_target_col lower (lower query) (columns df) = Some col"
    and "col \<notin> set (numeric_cols df)"
    and "\<forall>c \<in> set (columns df'). \<not> sublist (lower c) (lower query)"
  shows "query_data_with_ai lower query df
           = Inr (Answer (couldnt_identify (resolve_intent (lower query))) None)
         \<and> query_data_with_ai lower query df = query_data_with_ai lower query df'"
proof -
  have t: "find_target_col lower (lower query) (columns df') = None"
    using assms(4) by (rule find_target_col_None)
  from assms(1) consider
      "resolve_intent (lower query) = Central_tendency Average"
    | "resolve_intent (lower query) = Central_tendency Median"
    | "resolve_intent (lower query) = Extremum Maximum"
    | "resolve_intent (lower query) = Extremum Minimum"
    by (auto simp: needs_numeric_column_def)
  then show ?thesis
  proof cases
    case 1 then show ?thesis
      using assms(2,3) by (simp add: query_data_with_ai_def mean_branch_def t)
  next
    case 2 then show ?thesis
      using assms(2,3) by (simp add: query_data_with_ai_def median_branch_def t)
  next
    case 3 then show ?thesis
      using assms(2,3) by (simp add: query_data_with_ai_def maximum_branch_def t)
  next
    case 4 then show ?thesis
      using assms(2,3) by (simp add: query_data_with_ai_def minimum_branch_def t)
  qed
qed

theorem C10_non_numeric_match_witness:
  "query_data_with_ai lower_ascii ''median region_sales'' df_region
     = Inr (Answer [T ''I couldn't identify which numeric column you want to find the median for. Please specify a numeric column name.''] None)
   \<and> query_data_with_ai lower_ascii ''median region_sales'' df_region
       = query_data_with_ai lower_ascii ''median region_sales'' []"
proof -
  have q: "lower_ascii ''median region_sales'' = ''median region_sales''"
    by (simp add: lower_ascii_def lower_ascii_char_def)
  have i: "resolve_intent (lower_ascii ''median region_sales'') = Central_tendency Median"
    by (simp add: q resolve_intent_def any_word_in_def)
  have h: "needs_numeric_column (resolve_intent (lower_ascii ''median region_sales''))"
    by (simp add: i needs_numeric_column_def)
  have f: "find_target_col lower_ascii (lower_ascii ''median region_sales'') (columns df_region) = Some ''region''"
    by (simp add: columns_def df_region_def q lower_region)
  have n: "''region'' \<notin> set (numeric_cols df_region)"
    by (simp add: numeric_cols_def df_region_def)
  have e: "\<forall>c \<in> set (columns []). \<not> sublist (lower_ascii c) (lower_ascii ''median region_sales'')"
    by (simp add: columns_def)
  note th = C10_non_numeric_match [where lower = lower_ascii, OF h f n e]
  from th have a: "query_data_with_ai lower_ascii ''median region_sales'' df_region
     = Inr (Answer [T ''I couldn't identify which numeric column you want to find the median for. Please specify a numeric column name.''] None)"
    by (simp add: i)
  from th have b: "query_data_with_ai lower_ascii ''median region_sales'' df_region
                     = query_data_with_ai lower_ascii ''median region_sales'' []"
    by (rule conjunct2)
  show ?thesis using a b by (rule conjI)
qed

section \<open>The correlation branch\<close>

lemma lower_correlation_query: "lower_ascii ''What is the correlation?'' = ''what is the correlation?''"
  by (simp add: lower_ascii_def lower_ascii_char_def)

lemma intent_correlation_query: "resolve_intent (lower_ascii ''What is the correlation?'') = Correlation"
  by (simp add: lower_correlation_query resolve_intent_def any_word_in_def)

lemma highest_correlation_constant:
  "highest_correlation (numeric_cols df_constant) (corr df_constant) = (Fin 0, [], [])"
  by (simp add: numeric_cols_def df_constant_def highest_correlation_def corr_step_def corr_def
      getitem_def pearson_def)

text \<open>
  C3. The claim is that with at least two numeric columns a correlation query always
  completes and names a strongest pair. The loop starts from \<open>highest_corr = 0\<close> and
  replaces it only by a strictly greater absolute coefficient, so when every coefficient
  off the diagonal is NaN or 0 no pair is ever selected, both names stay the empty
  string, and reading the matrix at them raises \<open>KeyError\<close>. The frame below has the two
  numeric columns \<open>a = [1, 1, 1]\<close> and \<open>b = [1, 2, 3]\<close>; \<open>a\<close> has no variance, so its
  coefficient with \<open>b\<close> is NaN.
\<close>

theorem C3_correlation_raises:
  "length (numeric_cols df_constant) \<ge> 2
   \<and> query_data_with_ai lower_ascii ''What is the correlation?'' df_constant = Inl KeyError"
proof -
  have n: "numeric_cols df_constant = [''a'', ''b'']"
    by (simp add: numeric_cols_def df_constant_def)
  have "correlation_branch df_constant = Inl KeyError"
    using highest_correlation_constant
    by (simp add: correlation_branch_def n corr_loc_def)
  then show ?thesis
    by (simp add: query_data_with_ai_def intent_correlation_query n)
qed

text \<open>
  C9. For a correlation query on a frame with at least two numeric columns in which the
  loop has found a strongest pair (its two names are columns of the matrix), the chart
  returned is the scatter plot of that pair with the \<open>ols\<close> trendline: the heatmap
  assigned to \<open>visualization\<close> first is overwritten before the return.
\<close>

theorem C9_scatter_overrides_heatmap:
  assumes "resolve_intent (lower query) = Correlation"
    and "2 \<le> length (numeric_cols df)"
    and "highest_correlation (numeric_cols df) (corr df) = (highest_corr, col1, col2)"
    and "col1 \<in> set (numeric_cols df)"
    and "col2 \<in> set (numeric_cols df)"
  shows "\<exists>response.
           query_data_with_ai lower query df
             = Inr (Answer response
                      (Some (Scatter col1 col2 ''ols''
                               (''Scatter Plot of '' @ col1 @ '' vs '' @ col2))))"
  using assms
  by (simp add: query_data_with_ai_def correlation_branch_def corr_loc_def Let_def)

lemma highest_correlation_perfect:
  "highest_correlation (numeric_cols df_perfect) (corr df_perfect) = (Fin 1, ''a'', ''b'')"
  by (simp add: numeric_cols_def df_perfect_def highest_correlation_def corr_step_def corr_def
      getitem_def pearson_def)

theorem C9_scatter_overrides_heatmap_witness:
  "\<exists>response.
     query_data_with_ai lower_ascii ''What is the correlation?'' df_perfect
       = Inr (Answer response (Some (Scatter ''a'' ''b'' ''ols'' ''Scatter Plot of a vs b'')))"
proof -
  have n: "numeric_cols df_perfect = [''a'', ''b'']"
    by (simp add: numeric_cols_def df_perfect_def)
  have l: "2 \<le> length (numeric_cols df_perfect)"
    by (simp add: n)
  have a: "''a'' \<in> set (numeric_cols df_perfect)" and b: "''b'' \<in> set (numeric_cols df_perfect)"
    by (simp_all add: n)
  show ?thesis
    using C9_scatter_overrides_heatmap
      [where lower = lower_ascii, OF intent_correlation_query l highest_correlation_perfect a b]
    by simp
qed

section \<open>The trend branch\<close>


lemma lower_date: "lower_ascii ''date'' = ''date''"
  by (simp add: lower_ascii_def lower_ascii_char_def)














section \<open>The strongest pair\<close>

lemma nested_fold_product:
  "fold (\<lambda>x. fold (\<lambda>y. f x y) ys) xs s = fold (\<lambda>(x, y). f x y) (List.product xs ys) s"
proof (induction xs arbitrary: s)
  case Nil
  then show ?case by simp
next
  case (Cons x xs)
  have "fold (\<lambda>(x, y). f x y) (map (Pair x) ys) s = fold (\<lambda>y. f x y) ys s"
    by (simp add: fold_map comp_def)
  with Cons show ?case by simp
qed

lemma highest_correlation_product:
  "highest_correlation labels M
     = fold (\<lambda>(col1, col2). corr_step M col1 col2) (List.product labels labels) (Fin 0, [], [])"
  by (simp add: highest_correlation_def nested_fold_product)

lemma num_gt_trans: "num_gt a b \<Longrightarrow> num_gt b c \<Longrightarrow> num_gt a c"
  by (cases a; cases b; cases c) auto

lemma num_gt_not_NaN: "num_gt a b \<Longrightarrow> a \<noteq> NaN \<and> b \<noteq> NaN"
  by (cases a; cases b) auto

lemma num_abs_NaN: "num_abs x = NaN \<longleftrightarrow> x = NaN"
  by (cases x) auto

text \<open>Before the first strongest pair the running maximum stays below it.\<close>

lemma scan_prefix_below:
  assumes "num_gt v (fst st)"
    and "\<forall>(c, d) \<in> set pre. c \<noteq> d \<longrightarrow> num_gt v (num_abs (M c d)) \<or> M c d = NaN"
  shows "num_gt v (fst (fold (\<lambda>(col1, col2). corr_step M col1 col2) pre st))"
  using assms
proof (induction pre arbitrary: st)
  case Nil
  then show ?case by simp
next
  case (Cons p pre)
  obtain c d where p: "p = (c, d)" by (cases p)
  obtain h w1 w2 where st: "st = (h, w1, w2)" by (cases st)
  have "num_gt v (fst (corr_step M c d st))"
  proof (cases "c \<noteq> d \<and> num_gt (num_abs (M c d)) h")
    case True
    then have "M c d \<noteq> NaN"
      using num_gt_not_NaN num_abs_NaN by blast
    with True Cons.prems(2) p have "num_gt v (num_abs (M c d))"
      by auto
    with True st show ?thesis by (simp add: corr_step_def)
  next
    case False
    with st Cons.prems(1) show ?thesis by (auto simp: corr_step_def)
  qed
  moreover have "\<forall>(c, d) \<in> set pre. c \<noteq> d \<longrightarrow> num_gt v (num_abs (M c d)) \<or> M c d = NaN"
    using Cons.prems(2) by simp
  ultimately show ?case
    using Cons.IH [of "corr_step M c d st"] p by simp
qed

text \<open>After it no pair is strictly stronger, so the state is kept.\<close>

lemma scan_suffix_keeps:
  assumes "\<forall>(c, d) \<in> set post. c \<noteq> d \<longrightarrow> \<not> num_gt (num_abs (M c d)) h"
  shows "fold (\<lambda>(col1, col2). corr_step M col1 col2) post (h, w1, w2) = (h, w1, w2)"
  using assms
proof (induction post)
  case Nil
  then show ?case by simp
next
  case (Cons p post)
  obtain c d where p: "p = (c, d)" by (cases p)
  from Cons.prems p have "corr_step M c d (h, w1, w2) = (h, w1, w2)"
    by (auto simp: corr_step_def)
  moreover from Cons.prems
  have "\<forall>(c, d) \<in> set post. c \<noteq> d \<longrightarrow> \<not> num_gt (num_abs (M c d)) h"
    by simp
  ultimately show ?case
    using Cons.IH p by simp
qed

text \<open>
  C6. The two loops visit the pairs of columns in the order of \<open>List.product labels labels\<close>
  (outer column first). Let \<open>(a, b)\<close> be a pair of distinct columns with a positive
  absolute coefficient such that every pair of distinct columns before it is strictly
  weaker or undefined and no pair after it is strictly stronger (pairs after it may
  tie). Then the loop ends with \<open>(a, b)\<close> and its absolute coefficient: of the pairs that
  attain the maximum, the first one met is reported.
\<close>

theorem C6_correlation_tie_break:
  assumes "List.product labels labels = pre @ (a, b) # post"
    and "a \<noteq> b"
    and "num_gt (num_abs (M a b)) (Fin 0)"
    and "\<forall>(c, d) \<in> set pre. c \<noteq> d \<longrightarrow>
           num_gt (num_abs (M a b)) (num_abs (M c d)) \<or> M c d = NaN"
    and "\<forall>(c, d) \<in> set post. c \<noteq> d \<longrightarrow> \<not> num_gt (num_abs (M c d)) (num_abs (M a b))"
  shows "highest_correlation labels M = (num_abs (M a b), a, b)"
proof -
  let ?step = "\<lambda>(col1, col2). corr_step M col1 col2"
  obtain h w1 w2 where st: "fold ?step pre (Fin 0, [], []) = (h, w1, w2)"
    by (cases "fold ?step pre (Fin 0, [], [])")
  have "num_gt (num_abs (M a b)) (fst (fold ?step pre (Fin 0, [], [])))"
    using assms(3,4) by (intro scan_prefix_below) simp_all
  with st have below: "num_gt (num_abs (M a b)) h"
    by simp
  have at: "corr_step M a b (h, w1, w2) = (num_abs (M a b), a, b)"
    using assms(2) below by (simp add: corr_step_def)
  have "highest_correlation labels M = fold ?step post (corr_step M a b (h, w1, w2))"
    by (simp add: highest_correlation_product assms(1) st)
  also have "\<dots> = (num_abs (M a b), a, b)"
    unfolding at using assms(5) by (rule scan_suffix_keeps)
  finally show ?thesis .
qed

theorem C6_correlation_tie_break_witness:
  "highest_correlation [''a'', ''b'', ''c''] corr_three = (Fin (9 / 10), ''a'', ''c'')"
proof -
  have p: "List.product [''a'', ''b'', ''c''] [''a'', ''b'', ''c'']
             = [(''a'', ''a''), (''a'', ''b'')] @ (''a'', ''c'')
               # [(''b'', ''a''), (''b'', ''b''), (''b'', ''c''),
                  (''c'', ''a''), (''c'', ''b''), (''c'', ''c'')]"
    by simp
  have ac: "corr_three ''a'' ''c'' = Fin (9 / 10)"
    by (simp add: corr_three_def doubleton_eq_iff)
  have n: "''a'' \<noteq> ''c''"
    by simp
  have g: "num_gt (num_abs (corr_three ''a'' ''c'')) (Fin 0)"
    by (simp add: ac)
  have pre: "\<forall>(c, d) \<in> set [(''a'', ''a''), (''a'', ''b'')]. c \<noteq> d \<longrightarrow>
           num_gt (num_abs (corr_three ''a'' ''c'')) (num_abs (corr_three c d))
           \<or> corr_three c d = NaN"
    by (simp add: ac) (simp add: corr_three_def doubleton_eq_iff)
  have post: "\<forall>(c, d) \<in> set [(''b'', ''a''), (''b'', ''b''), (''b'', ''c''),
                  (''c'', ''a''), (''c'', ''b''), (''c'', ''c'')]. c \<noteq> d \<longrightarrow>
           \<not> num_gt (num_abs (corr_three c d)) (num_abs (corr_three ''a'' ''c''))"
    by (simp add: ac) (simp add: corr_three_def doubleton_eq_iff)
  show ?thesis
    using C6_correlation_tie_break [OF p n g pre post] by (simp add: ac)
qed

section \<open>The extremum branches\<close>

lemma scan_extreme_None:
  "scan_extreme better cs i best = None \<longleftrightarrow> best = None \<and> dropna cs = []"
proof (induction cs arbitrary: i best)
  case Nil
  then show ?case by simp
next
  case (Cons c cs)
  then show ?case
    by (cases c; cases best) (auto split: if_splits)
qed

text \<open>
  The scan, for any total preorder \<open>le\<close> with "better" meaning "not \<open>le\<close>": the value kept
  bounds every number of the series and the value carried in, and unless the carried
  pair survives, the position kept holds that value and every number before it is
  strictly worse.
\<close>

lemma scan_extreme_char:
  fixes le :: "real \<Rightarrow> real \<Rightarrow> bool"
  assumes tot: "\<And>x y. le x y \<or> le y x"
    and tr: "\<And>x y z. le x y \<Longrightarrow> le y z \<Longrightarrow> le x z"
  shows "scan_extreme (\<lambda>r m. \<not> le r m) cs i best = Some (k, m) \<Longrightarrow>
         (\<forall>r. Num r \<in> set cs \<longrightarrow> le r m)
         \<and> (\<forall>j mb. best = Some (j, mb) \<longrightarrow> le mb m)
         \<and> (best = Some (k, m)
              \<or> (i \<le> k \<and> k < i + length cs \<and> cs ! (k - i) = Num m
                  \<and> (\<forall>j < k - i. \<forall>r. cs ! j = Num r \<longrightarrow> \<not> le m r)
                  \<and> (\<forall>j mb. best = Some (j, mb) \<longrightarrow> \<not> le m mb)))"
proof (induction cs arbitrary: i best)
  case Nil
  then show ?case using tot by auto
next
  case (Cons c cs)
  define best' where "best' =
     (case c of
        Num r \<Rightarrow>
          (case best of
             None \<Rightarrow> Some (i, r)
           | Some (j, mb) \<Rightarrow> if \<not> le r mb then Some (i, r) else Some (j, mb))
      | _ \<Rightarrow> best)"
  have res: "scan_extreme (\<lambda>r m. \<not> le r m) cs (Suc i) best' = Some (k, m)"
    using Cons.prems by (simp add: best'_def)
  note ih = Cons.IH [OF res]
  from ih have a: "\<forall>r. Num r \<in> set cs \<longrightarrow> le r m"
    and b: "\<forall>j mb. best' = Some (j, mb) \<longrightarrow> le mb m"
    by blast+
  from ih have c: "best' = Some (k, m)
              \<or> (Suc i \<le> k \<and> k < Suc i + length cs \<and> cs ! (k - Suc i) = Num m
                  \<and> (\<forall>j < k - Suc i. \<forall>r. cs ! j = Num r \<longrightarrow> \<not> le m r)
                  \<and> (\<forall>j mb. best' = Some (j, mb) \<longrightarrow> \<not> le m mb))"
    by blast
  have shift: "Suc i \<le> k \<Longrightarrow> (c # cs) ! (k - i) = cs ! (k - Suc i)"
    by (simp add: Suc_diff_le)
  have earlier: "\<forall>j < k - i. \<forall>r. (c # cs) ! j = Num r \<longrightarrow> \<not> le m r"
    if "Suc i \<le> k" and "\<forall>j < k - Suc i. \<forall>r. cs ! j = Num r \<longrightarrow> \<not> le m r"
      and "\<forall>r. c = Num r \<longrightarrow> \<not> le m r"
  proof (intro allI impI)
    fix j r
    assume j: "j < k - i" and v: "(c # cs) ! j = Num r"
    show "\<not> le m r"
    proof (cases j)
      case 0
      with v that(3) show ?thesis by simp
    next
      case (Suc j')
      with j have "j' < k - Suc i" by simp
      with v Suc that(2) show ?thesis by simp
    qed
  qed
  show ?case
  proof (cases "\<exists>r. c = Num r")
    case False
    then have eq: "best' = best"
      by (cases c) (simp_all add: best'_def)
    have n: "\<forall>r. c = Num r \<longrightarrow> \<not> le m r"
      using False by simp
    from a False have g1: "\<forall>r. Num r \<in> set (c # cs) \<longrightarrow> le r m"
      by auto
    from c show ?thesis
    proof
      assume "best' = Some (k, m)"
      with eq g1 b show ?thesis by simp
    next
      assume s: "Suc i \<le> k \<and> k < Suc i + length cs \<and> cs ! (k - Suc i) = Num m
                  \<and> (\<forall>j < k - Suc i. \<forall>r. cs ! j = Num r \<longrightarrow> \<not> le m r)
                  \<and> (\<forall>j mb. best' = Some (j, mb) \<longrightarrow> \<not> le m mb)"
      then have "i \<le> k \<and> k < i + length (c # cs) \<and> (c # cs) ! (k - i) = Num m"
        using shift by simp
      moreover have "\<forall>j < k - i. \<forall>r. (c # cs) ! j = Num r \<longrightarrow> \<not> le m r"
        using s n by (intro earlier) simp_all
      ultimately show ?thesis
        using g1 b s eq by simp
    qed
  next
    case True
    then obtain r where r: "c = Num r" by blast
    show ?thesis
    proof (cases "\<exists>j mb. best = Some (j, mb) \<and> le r mb")
      case True
      then obtain j mb where bst: "best = Some (j, mb)" and le: "le r mb"
        by blast
      then have eq: "best' = best"
        by (simp add: best'_def r)
      from b eq bst have mb: "le mb m" by simp
      with le have rm: "le r m" by (rule tr)
      with a r have g1: "\<forall>r. Num r \<in> set (c # cs) \<longrightarrow> le r m"
        by auto
      from c show ?thesis
      proof
        assume "best' = Some (k, m)"
        with eq g1 b show ?thesis by simp
      next
        assume s: "Suc i \<le> k \<and> k < Suc i + length cs \<and> cs ! (k - Suc i) = Num m
                  \<and> (\<forall>j < k - Suc i. \<forall>r. cs ! j = Num r \<longrightarrow> \<not> le m r)
                  \<and> (\<forall>j mb. best' = Some (j, mb) \<longrightarrow> \<not> le m mb)"
        with eq bst have nm: "\<not> le m mb" by simp
        have n: "\<forall>r'. c = Num r' \<longrightarrow> \<not> le m r'"
          using r nm le tr by blast
        from s have "i \<le> k \<and> k < i + length (c # cs) \<and> (c # cs) ! (k - i) = Num m"
          using shift by simp
        moreover have "\<forall>j < k - i. \<forall>r. (c # cs) ! j = Num r \<longrightarrow> \<not> le m r"
          using s n by (intro earlier) simp_all
        ultimately show ?thesis
          using g1 b s eq by simp
      qed
    next
      case False
      then have eq: "best' = Some (i, r)"
        by (cases best) (auto simp: best'_def r)
      from b eq have rm: "le r m" by simp
      with a r have g1: "\<forall>r. Num r \<in> set (c # cs) \<longrightarrow> le r m"
        by auto
      have old: "le mb m \<and> \<not> le r mb" if "best = Some (j, mb)" for j mb
      proof -
        from that False have "\<not> le r mb" by simp
        moreover from this tot have "le mb r" by blast
        ultimately show ?thesis using rm tr by blast
      qed
      then have g2: "\<forall>j mb. best = Some (j, mb) \<longrightarrow> le mb m"
        by blast
      from c have "i \<le> k \<and> k < i + length (c # cs) \<and> (c # cs) ! (k - i) = Num m
                  \<and> (\<forall>j < k - i. \<forall>r. (c # cs) ! j = Num r \<longrightarrow> \<not> le m r)
                  \<and> (\<forall>j mb. best = Some (j, mb) \<longrightarrow> \<not> le m mb)"
      proof
        assume "best' = Some (k, m)"
        with eq have k: "k = i" and m: "m = r" by simp_all
        then show ?thesis using r old by auto
      next
        assume s: "Suc i \<le> k \<and> k < Suc i + length cs \<and> cs ! (k - Suc i) = Num m
                  \<and> (\<forall>j < k - Suc i. \<forall>r. cs ! j = Num r \<longrightarrow> \<not> le m r)
                  \<and> (\<forall>j mb. best' = Some (j, mb) \<longrightarrow> \<not> le m mb)"
        with eq have nr: "\<not> le m r" by simp
        then have n: "\<forall>r'. c = Num r' \<longrightarrow> \<not> le m r'"
          using r by simp
        from s have "i \<le> k \<and> k < i + length (c # cs) \<and> (c # cs) ! (k - i) = Num m"
          using shift by simp
        moreover have "\<forall>j < k - i. \<forall>r. (c # cs) ! j = Num r \<longrightarrow> \<not> le m r"
          using s n by (intro earlier) simp_all
        moreover have "\<forall>j mb. best = Some (j, mb) \<longrightarrow> \<not> le m mb"
        proof (intro allI impI)
          fix j mb
          assume "best = Some (j, mb)"
          then have "\<not> le r mb" using old by blast
          then have "le mb r" using tot by blast
          with nr show "\<not> le m mb" using tr by blast
        qed
        ultimately show ?thesis by simp
      qed
      with g1 g2 show ?thesis by simp
    qed
  qed
qed

lemma scan_max:
  assumes "dropna cs \<noteq> []"
  shows "\<exists>i m. scan_extreme (>) cs 0 None = Some (i, m) \<and> i < length cs \<and> cs ! i = Num m
           \<and> (\<forall>r. Num r \<in> set cs \<longrightarrow> r \<le> m) \<and> (\<forall>j < i. cs ! j \<noteq> Num m)"
proof -
  have gt: "((>) :: real \<Rightarrow> real \<Rightarrow> bool) = (\<lambda>r m. \<not> r \<le> m)"
    by (intro ext) auto
  from assms obtain i m where s: "scan_extreme (>) cs 0 None = Some (i, m)"
    using scan_extreme_None [of "(>)" cs 0 None] by (cases "scan_extreme (>) cs 0 None") auto
  then have "scan_extreme (\<lambda>r m. \<not> r \<le> m) cs 0 None = Some (i, m)"
    by (simp only: gt)
  moreover have t1: "\<And>x y :: real. x \<le> y \<or> y \<le> x"
    by auto
  moreover have t2: "\<And>x y z :: real. x \<le> y \<Longrightarrow> y \<le> z \<Longrightarrow> x \<le> z"
    by auto
  ultimately
  have "(\<forall>r. Num r \<in> set cs \<longrightarrow> r \<le> m) \<and> i < length cs \<and> cs ! i = Num m
          \<and> (\<forall>j < i. \<forall>r. cs ! j = Num r \<longrightarrow> \<not> m \<le> r)"
    using scan_extreme_char [of "(\<le>)" cs 0 None i m] by auto
  with s show ?thesis by auto
qed

lemma scan_min:
  assumes "dropna cs \<noteq> []"
  shows "\<exists>i m. scan_extreme (<) cs 0 None = Some (i, m) \<and> i < length cs \<and> cs ! i = Num m
           \<and> (\<forall>r. Num r \<in> set cs \<longrightarrow> m \<le> r) \<and> (\<forall>j < i. cs ! j \<noteq> Num m)"
proof -
  have lt: "((<) :: real \<Rightarrow> real \<Rightarrow> bool) = (\<lambda>r m. \<not> r \<ge> m)"
    by (intro ext) auto
  from assms obtain i m where s: "scan_extreme (<) cs 0 None = Some (i, m)"
    using scan_extreme_None [of "(<)" cs 0 None] by (cases "scan_extreme (<) cs 0 None") auto
  then have "scan_extreme (\<lambda>r m. \<not> r \<ge> m) cs 0 None = Some (i, m)"
    by (simp only: lt)
  moreover have t1: "\<And>x y :: real. x \<ge> y \<or> y \<ge> x"
    by auto
  moreover have t2: "\<And>x y z :: real. x \<ge> y \<Longrightarrow> y \<ge> z \<Longrightarrow> x \<ge> z"
    by auto
  ultimately
  have "(\<forall>r. Num r \<in> set cs \<longrightarrow> r \<ge> m) \<and> i < length cs \<and> cs ! i = Num m
          \<and> (\<forall>j < i. \<forall>r. cs ! j = Num r \<longrightarrow> \<not> m \<ge> r)"
    using scan_extreme_char [of "(\<ge>)" cs 0 None i m] by auto
  with s show ?thesis by auto
qed


text \<open>
  Where the column has a number the extremum branches do report the extreme value and
  its first row. For a maximum (minimum) query whose first named column is a numeric
  column with at least one number, the call returns the maximum (minimum) report built
  from a value \<open>m\<close> and the row \<open>df.loc[i]\<close>, where \<open>m\<close> is the greatest (least) number of
  the column and \<open>i\<close> is the first position that holds it: the column has \<open>m\<close> at \<open>i\<close>, no
  number of the column is greater (less) than \<open>m\<close>, and no position before \<open>i\<close> holds \<open>m\<close>. A
  row \<open>df.loc[k]\<close> has one entry for every column of the frame, in dataset order.
\<close>

lemma extremum_row_first_occurrence:
  assumes "find_target_col lower (lower query) (columns df) = Some col"
    and "col \<noteq> []"
    and "col \<in> set (numeric_cols df)"
    and "cs = getitem df col"
    and "dropna cs \<noteq> []"
  shows "(resolve_intent (lower query) = Extremum Maximum \<longrightarrow>
           (\<exists>i m. query_data_with_ai lower query df = Inr (maximum_report col (Fin m) (loc df i))
                  \<and> i < length cs \<and> cs ! i = Num m
                  \<and> (\<forall>r. Num r \<in> set cs \<longrightarrow> r \<le> m)
                  \<and> (\<forall>j < i. cs ! j \<noteq> Num m)))
       \<and> (resolve_intent (lower query) = Extremum Minimum \<longrightarrow>
           (\<exists>i m. query_data_with_ai lower query df = Inr (minimum_report col (Fin m) (loc df i))
                  \<and> i < length cs \<and> cs ! i = Num m
                  \<and> (\<forall>r. Num r \<in> set cs \<longrightarrow> m \<le> r)
                  \<and> (\<forall>j < i. cs ! j \<noteq> Num m)))
       \<and> map fst (loc df k) = columns df"
proof (intro conjI impI)
  show "map fst (loc df k) = columns df"
    by (simp add: loc_def columns_def comp_def)
next
  assume intent: "resolve_intent (lower query) = Extremum Maximum"
  from scan_max [OF assms(5)] obtain i m where
    s: "scan_extreme (>) cs 0 None = Some (i, m)"
    and p: "i < length cs \<and> cs ! i = Num m \<and> (\<forall>r. Num r \<in> set cs \<longrightarrow> r \<le> m)
            \<and> (\<forall>j < i. cs ! j \<noteq> Num m)"
    by blast
  have "query_data_with_ai lower query df = Inr (maximum_report col (Fin m) (loc df i))"
    using intent assms(1-3) s [unfolded assms(4)]
    by (simp add: query_data_with_ai_def maximum_branch_def series_max_def idxmax_def)
  with p show "\<exists>i m. query_data_with_ai lower query df = Inr (maximum_report col (Fin m) (loc df i))
                  \<and> i < length cs \<and> cs ! i = Num m
                  \<and> (\<forall>r. Num r \<in> set cs \<longrightarrow> r \<le> m)
                  \<and> (\<forall>j < i. cs ! j \<noteq> Num m)"
    by blast
next
  assume intent: "resolve_intent (lower query) = Extremum Minimum"
  from scan_min [OF assms(5)] obtain i m where
    s: "scan_extreme (<) cs 0 None = Some (i, m)"
    and p: "i < length cs \<and> cs ! i = Num m \<and> (\<forall>r. Num r \<in> set cs \<longrightarrow> m \<le> r)
            \<and> (\<forall>j < i. cs ! j \<noteq> Num m)"
    by blast
  have "query_data_with_ai lower query df = Inr (minimum_report col (Fin m) (loc df i))"
    using intent assms(1-3) s [unfolded assms(4)]
    by (simp add: query_data_with_ai_def minimum_branch_def series_min_def idxmin_def)
  with p show "\<exists>i m. query_data_with_ai lower query df = Inr (minimum_report col (Fin m) (loc df i))
                  \<and> i < length cs \<and> cs ! i = Num m
                  \<and> (\<forall>r. Num r \<in> set cs \<longrightarrow> m \<le> r)
                  \<and> (\<forall>j < i. cs ! j \<noteq> Num m)"
    by blast
qed

lemma lower_label: "lower_ascii ''label'' = ''label''"
  by (simp add: lower_ascii_def lower_ascii_char_def)

lemma lower_score: "lower_ascii ''score'' = ''score''"
  by (simp add: lower_ascii_def lower_ascii_char_def)

text \<open>
  The values \<open>[3, 1, 4, 1, 5]\<close>: the maximum 5 comes with the row at index 4, the minimum
  1 with the row at index 1, not the one at index 3.
\<close>

lemma extremum_row_example:
  "query_data_with_ai lower_ascii ''Maximum score'' df_scores
     = Inr (maximum_report ''score'' (Fin 5)
              [(''label'', Str ''t''), (''score'', Num 5)])
   \<and> query_data_with_ai lower_ascii ''Minimum score'' df_scores
     = Inr (minimum_report ''score'' (Fin 1)
              [(''label'', Str ''q''), (''score'', Num 1)])"
proof -
  have q1: "lower_ascii ''Maximum score'' = ''maximum score''"
    by (simp add: lower_ascii_def lower_ascii_char_def)
  have q2: "lower_ascii ''Minimum score'' = ''minimum score''"
    by (simp add: lower_ascii_def lower_ascii_char_def)
  have i1: "resolve_intent (lower_ascii ''Maximum score'') = Extremum Maximum"
    by (simp add: q1 resolve_intent_def any_word_in_def)
  have i2: "resolve_intent (lower_ascii ''Minimum score'') = Extremum Minimum"
    by (simp add: q2 resolve_intent_def any_word_in_def)
  have f1: "find_target_col lower_ascii (lower_ascii ''Maximum score'') (columns df_scores) = Some ''score''"
    by (simp add: q1 columns_def df_scores_def lower_label lower_score)
  have f2: "find_target_col lower_ascii (lower_ascii ''Minimum score'') (columns df_scores) = Some ''score''"
    by (simp add: q2 columns_def df_scores_def lower_label lower_score)
  have ne: "''score'' \<noteq> []"
    by simp
  have n: "''score'' \<in> set (numeric_cols df_scores)"
    by (simp add: numeric_cols_def df_scores_def)
  have g: "[Num 3, Num 1, Num 4, Num 1, Num 5] = getitem df_scores ''score''"
    by (simp add: getitem_def df_scores_def)
  have d: "dropna [Num 3, Num 1, Num 4, Num 1, Num 5] \<noteq> []"
    by simp
  have r4: "loc df_scores 4 = [(''label'', Str ''t''), (''score'', Num 5)]"
    by (simp add: loc_def df_scores_def cell_at_def)
  have r1: "loc df_scores 1 = [(''label'', Str ''q''), (''score'', Num 1)]"
    by (simp add: loc_def df_scores_def cell_at_def)
  from extremum_row_first_occurrence [where lower = lower_ascii, OF f1 ne n g d, THEN conjunct1, THEN mp, OF i1]
  obtain i m where
    a: "query_data_with_ai lower_ascii ''Maximum score'' df_scores
          = Inr (maximum_report ''score'' (Fin m) (loc df_scores i))"
    and b: "i < length [Num 3, Num 1, Num 4, Num 1, Num 5 :: cell]"
    and c: "[Num 3, Num 1, Num 4, Num 1, Num 5] ! i = Num m"
    and u: "\<forall>r. Num r \<in> set [Num 3, Num 1, Num 4, Num 1, Num 5] \<longrightarrow> r \<le> m"
    by blast
  from u have "5 \<le> m" by simp
  moreover from b have "i = 0 \<or> i = 1 \<or> i = 2 \<or> i = 3 \<or> i = 4"
    by (simp del: One_nat_def) arith
  ultimately have "i = 4 \<and> m = 5"
    using c by auto
  with a r4 have mx: "query_data_with_ai lower_ascii ''Maximum score'' df_scores
     = Inr (maximum_report ''score'' (Fin 5) [(''label'', Str ''t''), (''score'', Num 5)])"
    by simp
  from extremum_row_first_occurrence [where lower = lower_ascii, OF f2 ne n g d, THEN conjunct2, THEN conjunct1, THEN mp, OF i2]
  obtain i m where
    a: "query_data_with_ai lower_ascii ''Minimum score'' df_scores
          = Inr (minimum_report ''score'' (Fin m) (loc df_scores i))"
    and b: "i < length [Num 3, Num 1, Num 4, Num 1, Num 5 :: cell]"
    and c: "[Num 3, Num 1, Num 4, Num 1, Num 5] ! i = Num m"
    and u: "\<forall>r. Num r \<in> set [Num 3, Num 1, Num 4, Num 1, Num 5] \<longrightarrow> m \<le> r"
    and e: "\<forall>j < i. [Num 3, Num 1, Num 4, Num 1, Num 5] ! j \<noteq> Num m"
    by blast
  from u have "m \<le> 1" by simp
  moreover from b have "i = 0 \<or> i = 1 \<or> i = 2 \<or> i = 3 \<or> i = 4"
    by (simp del: One_nat_def) arith
  ultimately have "(i = 1 \<or> i = 3) \<and> m = 1"
    using c by auto
  moreover from this e have "i \<noteq> 3"
    by (auto dest: spec [of _ 1])
  ultimately have "i = 1 \<and> m = 1" by simp
  with a r1 have mn: "query_data_with_ai lower_ascii ''Minimum score'' df_scores
     = Inr (minimum_report ''score'' (Fin 1) [(''label'', Str ''q''), (''score'', Num 1)])"
    by simp
  show ?thesis using mx mn by (rule conjI)
qed

lemma lower_maximum_score: "lower_ascii ''Maximum score'' = ''maximum score''"
  by (simp add: lower_ascii_def lower_ascii_char_def)

lemma lower_minimum_score: "lower_ascii ''Minimum score'' = ''minimum score''"
  by (simp add: lower_ascii_def lower_ascii_char_def)

lemma lower_average_score: "lower_ascii ''Average score'' = ''average score''"
  by (simp add: lower_ascii_def lower_ascii_char_def)

lemma maximum_branch_missing:
  "maximum_branch lower_ascii ''maximum score'' df_missing = Inl ValueError"
  by (simp add: maximum_branch_def columns_def numeric_cols_def getitem_def df_missing_def
      lower_label lower_score idxmax_def)

lemma minimum_branch_missing:
  "minimum_branch lower_ascii ''minimum score'' df_missing = Inl ValueError"
  by (simp add: minimum_branch_def columns_def numeric_cols_def getitem_def df_missing_def
      lower_label lower_score idxmin_def)

lemma maximum_branch_norows:
  "maximum_branch lower_ascii ''maximum score'' df_norows = Inl ValueError"
  by (simp add: maximum_branch_def columns_def numeric_cols_def getitem_def df_norows_def
      lower_label lower_score idxmax_def)

lemma minimum_branch_norows:
  "minimum_branch lower_ascii ''minimum score'' df_norows = Inl ValueError"
  by (simp add: minimum_branch_def columns_def numeric_cols_def getitem_def df_norows_def
      lower_label lower_score idxmin_def)

lemma mean_branch_missing:
  "\<exists>response chart. mean_branch lower_ascii ''average score'' df_missing = Answer response chart
     \<and> F2 NaN \<in> set response"
  by (simp add: mean_branch_def columns_def numeric_cols_def getitem_def df_missing_def
      lower_label lower_score mean_def Let_def)

text \<open>
  C4. The claim is that every extremum query on a resolved numeric column reports the
  extreme value and the row of its first occurrence. The maximum and the minimum branch
  call \<open>idxmax\<close> and \<open>idxmin\<close> and read the row without a guard, so on a numeric column
  that holds no number (all entries missing, or a frame without rows) the call raises
  and reports nothing, where the mean branch, on the same column, answers with NaN.
\<close>

theorem C4_extremum_raises:
  "query_data_with_ai lower_ascii ''Maximum score'' df_missing = Inl ValueError
   \<and> query_data_with_ai lower_ascii ''Minimum score'' df_missing = Inl ValueError
   \<and> query_data_with_ai lower_ascii ''Maximum score'' df_norows = Inl ValueError
   \<and> query_data_with_ai lower_ascii ''Minimum score'' df_norows = Inl ValueError
   \<and> (\<exists>response chart.
         query_data_with_ai lower_ascii ''Average score'' df_missing
           = Inr (Answer response chart)
         \<and> F2 NaN \<in> set response)"
proof -
  have i1: "resolve_intent ''maximum score'' = Extremum Maximum"
    by (simp add: resolve_intent_def any_word_in_def)
  have i2: "resolve_intent ''minimum score'' = Extremum Minimum"
    by (simp add: resolve_intent_def any_word_in_def)
  have i3: "resolve_intent ''average score'' = Central_tendency Average"
    by (simp add: resolve_intent_def any_word_in_def)
  have a: "query_data_with_ai lower_ascii ''Maximum score'' df_missing = Inl ValueError"
    by (simp add: query_data_with_ai_def lower_maximum_score i1 maximum_branch_missing)
  have b: "query_data_with_ai lower_ascii ''Minimum score'' df_missing = Inl ValueError"
    by (simp add: query_data_with_ai_def lower_minimum_score i2 minimum_branch_missing)
  have c: "query_data_with_ai lower_ascii ''Maximum score'' df_norows = Inl ValueError"
    by (simp add: query_data_with_ai_def lower_maximum_score i1 maximum_branch_norows)
  have d: "query_data_with_ai lower_ascii ''Minimum score'' df_norows = Inl ValueError"
    by (simp add: query_data_with_ai_def lower_minimum_score i2 minimum_branch_norows)
  have e: "\<exists>response chart.
         query_data_with_ai lower_ascii ''Average score'' df_missing
           = Inr (Answer response chart)
         \<and> F2 NaN \<in> set response"
    using mean_branch_missing
    by (simp add: query_data_with_ai_def lower_average_score i3)
  from a b c d e show ?thesis
    by (intro conjI)
qed

section \<open>The type buckets\<close>

lemma file_columns_Inr:
  "file_columns df cols ct0 = Inr ct \<Longrightarrow>
     (\<forall>c \<in> set cols. \<exists>k. bucket_of df c = Inr k)
     \<and> (\<forall>k. ct k = ct0 k @ map name (filter (\<lambda>c. bucket_of df c = Inr k) cols))"
proof (induction cols arbitrary: ct0)
  case Nil
  then show ?case by simp
next
  case (Cons c cols)
  from Cons.prems obtain key where key: "bucket_of df c = Inr key"
    by (cases "bucket_of df c") simp_all
  with Cons.prems
  have "file_columns df cols (ct0 (key := ct0 key @ [name c])) = Inr ct"
    by simp
  from Cons.IH [OF this] key show ?case
    by auto
qed

lemma count_buckets:
  assumes "\<forall>c \<in> set cols. \<exists>k. b c = Inr k"
  shows "sum_list (map (\<lambda>k. count_list (map name (filter (\<lambda>c. b c = Inr k) cols)) n) all_buckets)
           = count_list (map name cols) n"
  using assms
proof (induction cols)
  case Nil
  then show ?case by (simp add: all_buckets_def)
next
  case (Cons c cols)
  then obtain k where "b c = Inr k" by auto
  with Cons show ?case
    by (cases k) (auto simp: all_buckets_def)
qed

text \<open>
  Whenever \<open>detect_data_types\<close> returns, its five lists partition the columns: a name
  occurs in the five lists together as often as among the columns, the name of a column
  is in the list of its own key, and when the names are distinct it is in no other
  list. A column of numeric dtype with at most 2 distinct non-missing values, all of them
  0, 1, \<open>True\<close> or \<open>False\<close>, is filed under \<open>boolean\<close>, and a column of a frame without rows
  that is neither numeric nor datetime under \<open>categorical\<close>.
\<close>

lemma type_buckets_partition:
  assumes "detect_data_types df = Inr column_types"
    and "c \<in> set df"
  shows "sum_list (map (\<lambda>k. count_list (column_types k) n) all_buckets)
           = count_list (columns df) n
       \<and> (\<exists>key. bucket_of df c = Inr key \<and> name c \<in> set (column_types key)
             \<and> (distinct (columns df) \<longrightarrow>
                  (\<forall>k. name c \<in> set (column_types k) \<longleftrightarrow> k = key)))
       \<and> ((dtype c = Number \<or> dtype c = Bool) \<and> nunique (cells c) \<le> 2
            \<and> zero_one_values (cells c) \<longrightarrow>
            name c \<in> set (column_types Boolean))
       \<and> (shape0 df = 0 \<and> cells c = [] \<and> dtype c \<noteq> Number \<and> dtype c \<noteq> Bool
            \<and> dtype c \<noteq> Datetime64 \<longrightarrow>
            name c \<in> set (column_types Categorical))"
proof -
  from assms(1) have all: "\<forall>c \<in> set df. \<exists>k. bucket_of df c = Inr k"
    and lists: "\<forall>k. column_types k = map name (filter (\<lambda>c. bucket_of df c = Inr k) df)"
    using file_columns_Inr [of df df "\<lambda>key. []" column_types]
    by (simp_all add: detect_data_types_def)
  from all assms(2) obtain key where key: "bucket_of df c = Inr key"
    by blast
  with assms(2) lists have own: "name c \<in> set (column_types key)"
    by auto
  have count: "sum_list (map (\<lambda>k. count_list (column_types k) n) all_buckets)
                 = count_list (columns df) n"
    using count_buckets [OF all, of n] by (simp add: lists columns_def)
  have only: "\<forall>k. name c \<in> set (column_types k) \<longleftrightarrow> k = key" if d: "distinct (columns df)"
  proof (intro allI iffI)
    fix k
    assume "name c \<in> set (column_types k)"
    with lists obtain c' where c': "c' \<in> set df" "bucket_of df c' = Inr k" "name c' = name c"
      by auto
    from d have "inj_on name (set df)"
      by (simp add: columns_def distinct_map)
    with c' assms(2) have "c' = c"
      by (auto dest: inj_onD)
    with c' key show "k = key" by simp
  next
    fix k
    assume "k = key"
    with own show "name c \<in> set (column_types k)" by simp
  qed
  have bool: "name c \<in> set (column_types Boolean)"
    if "(dtype c = Number \<or> dtype c = Bool) \<and> nunique (cells c) \<le> 2
          \<and> zero_one_values (cells c)"
  proof -
    from that have "bucket_of df c = Inr Boolean"
      by (auto simp: bucket_of_def)
    with key own show ?thesis by simp
  qed
  have cat: "name c \<in> set (column_types Categorical)"
    if "shape0 df = 0 \<and> cells c = [] \<and> dtype c \<noteq> Number \<and> dtype c \<noteq> Bool
          \<and> dtype c \<noteq> Datetime64"
  proof -
    from that have "bucket_of df c = Inr Categorical"
      by (simp add: bucket_of_def nunique_def str_len_mean_def str_accessor_raises_def mean_def)
    with key own show ?thesis by simp
  qed
  from count key own only bool cat show ?thesis
    by blast
qed

lemma detect_mixed:
  "\<exists>column_types. detect_data_types df_mixed = Inr column_types
     \<and> column_types Datetime = [''when''] \<and> column_types Numeric = [''price'']
     \<and> column_types Boolean = [''flag''] \<and> column_types Categorical = [''region'']
     \<and> column_types Text = [''note'']"
  by (simp add: detect_data_types_def df_mixed_def bucket_of_def nunique_def
      zero_one_values_def shape0_def mean_def str_len_mean_def str_accessor_raises_def
      is_str_def)

lemma detect_empty:
  "\<exists>column_types. detect_data_types df_empty = Inr column_types
     \<and> column_types Boolean = [''price''] \<and> column_types Categorical = [''note'']"
  by (simp add: detect_data_types_def df_empty_def bucket_of_def nunique_def
      zero_one_values_def shape0_def mean_def str_len_mean_def str_accessor_raises_def)

text \<open>
  C8. The claim is that the classifier files every column of every dataset under exactly
  one of the five keys. For an object column with at most half as many distinct values
  as the frame has rows the test of line 152 goes on to \<open>df[col].str\<close>, and on a column
  that holds no strings pandas raises \<open>AttributeError\<close>: the call returns no dictionary
  at all. The frame below has the object column \<open>active = [True, False, NaN, True]\<close>,
  with 2 distinct values in 4 rows.
\<close>

theorem C8_object_column_raises:
  "detect_data_types df_flags = Inl AttributeError"
  by (simp add: detect_data_types_def df_flags_def bucket_of_def nunique_def
      zero_one_values_def shape0_def str_len_mean_def str_accessor_raises_def is_str_def)

end
